theory Spec2Isabelle
  imports Main
begin

section \<open>Singleton.cpp: five lazily initialised accessors\<close>

text \<open>
  The file declares five classes, all named \<open>Singleton\<close>, each with a static member
  function \<open>getInstance\<close>. They are called V1 to V5 here, in the order of the file.
  The model is sequential: one thread calls \<open>getInstance\<close> again and again, and may
  catch what a call throws before it calls again.
\<close>

subsection \<open>Objects, pointers, exceptions\<close>

text \<open>
  The identity of a \<open>Singleton\<close> object: the free-store address that \<open>new\<close> answered
  (V1 to V4), or the one block-scope static of V5. The class has no data member, so an
  object is nothing but its identity.
\<close>

datatype object = heap_object nat | static_object

text \<open>A \<open>Singleton*\<close>.\<close>

datatype ptr = nullptr | addr object

text \<open>
  What a new-expression can throw. The constructor is defaulted and the class is empty,
  so the only failure of \<open>new Singleton()\<close> is the allocation's.
\<close>

datatype exn = bad_alloc

text \<open>
  How a call ends: it returns a value, it throws, or it waits forever for a mutex that
  nobody will release (in a sequential run).
\<close>

datatype 'a outcome = Returns 'a | Throws exn | Blocks

datatype mutex = Unlocked | Locked

datatype memory_order = relaxed | acquire | release

text \<open>What a call does to the shared state, in program order.\<close>

datatype event =
    Read ptr
  | Write ptr
  | Load memory_order ptr
  | Store memory_order ptr
  | Fence memory_order
  | Lock
  | Unlock
  | Ctor object
  | New_throws exn

subsection \<open>State\<close>

text \<open>
  Bookkeeping that the program does not hold itself: the objects whose constructor has
  completed, oldest first, and the events so far, oldest first.
\<close>

record world =
  constructed :: "object list"
  trace :: "event list"

text \<open>V1 has one static data member (line 13).\<close>

record statics_V1 = world +
  m_instance :: ptr

text \<open>
  V2, V3 and V4 have the pointer and a mutex (lines 36-37, 63-64, 92-93). In V4 the
  pointer is a \<open>std::atomic\<close>; its accesses carry a memory order, recorded in the events.
\<close>

record statics_V2 = statics_V1 +
  m_mutex :: mutex

text \<open>
  V5 has the block-scope static \<open>instance\<close> (line 124): storage at a fixed place, and
  whether its initialisation has completed.
\<close>

record statics_V5 = world +
  instance_initialized :: bool

text \<open>The initial values (lines 24, 49-50, 78-79, 113-114).\<close>

definition init_V1 :: statics_V1 where
  "init_V1 = \<lparr>constructed = [], trace = [], m_instance = nullptr\<rparr>"

definition init_V2 :: statics_V2 where
  "init_V2 = \<lparr>constructed = [], trace = [], m_instance = nullptr, m_mutex = Unlocked\<rparr>"

definition init_V5 :: statics_V5 where
  "init_V5 = \<lparr>constructed = [], trace = [], instance_initialized = False\<rparr>"

subsection \<open>Primitive operations\<close>

definition emit :: "event \<Rightarrow> 'a world_scheme \<Rightarrow> 'a world_scheme" where
  "emit e w = w\<lparr>trace := trace w @ [e]\<rparr>"

text \<open>
  \<open>new Singleton()\<close>. The allocator belongs to the runtime, so its answer is an input
  of the call: \<open>Inl e\<close> when the expression throws \<open>e\<close>, \<open>Inr a\<close> when it yields the
  address \<open>a\<close> (never null) and the constructor has run there. The answer is read only
  if the call evaluates the expression.
\<close>

definition new_Singleton ::
  "exn + nat \<Rightarrow> 'a world_scheme \<Rightarrow> (exn + ptr) \<times> 'a world_scheme" where
  "new_Singleton answer w =
     (case answer of
        Inl e \<Rightarrow> (Inl e, emit (New_throws e) w)
      | Inr a \<Rightarrow> (Inr (addr (heap_object a)),
                  emit (Ctor (heap_object a))
                    (w\<lparr>constructed := constructed w @ [heap_object a]\<rparr>)))"

text \<open>A plain read of, and a plain assignment to, \<open>m_instance\<close> (V1 to V3).\<close>

definition read_instance :: "'a statics_V1_scheme \<Rightarrow> ptr \<times> 'a statics_V1_scheme" where
  "read_instance s = (m_instance s, emit (Read (m_instance s)) s)"

definition write_instance :: "ptr \<Rightarrow> 'a statics_V1_scheme \<Rightarrow> 'a statics_V1_scheme" where
  "write_instance p s = emit (Write p) (s\<lparr>m_instance := p\<rparr>)"

text \<open>\<open>return m_instance;\<close>\<close>

definition return_instance ::
  "'a statics_V1_scheme \<Rightarrow> ptr outcome \<times> 'a statics_V1_scheme" where
  "return_instance s = (let (p, s1) = read_instance s in (Returns p, s1))"

text \<open>\<open>m_instance.load(order)\<close>, \<open>m_instance.store(p, order)\<close>, \<open>std::atomic_thread_fence(order)\<close> (V4).\<close>

definition load :: "memory_order \<Rightarrow> statics_V2 \<Rightarrow> ptr \<times> statics_V2" where
  "load order s = (m_instance s, emit (Load order (m_instance s)) s)"

definition store :: "ptr \<Rightarrow> memory_order \<Rightarrow> statics_V2 \<Rightarrow> statics_V2" where
  "store p order s = emit (Store order p) (s\<lparr>m_instance := p\<rparr>)"

definition atomic_thread_fence :: "memory_order \<Rightarrow> statics_V2 \<Rightarrow> statics_V2" where
  "atomic_thread_fence order s = emit (Fence order) s"

text \<open>
  \<open>std::lock_guard<std::mutex> lock(m_mutex);\<close> followed by the rest of its scope: the
  constructor locks the mutex (and never returns when it is held already), the
  destructor unlocks it when the scope is left, by a return or by an exception alike.
\<close>

definition lock_guard ::
  "(statics_V2 \<Rightarrow> 'r outcome \<times> statics_V2) \<Rightarrow> statics_V2 \<Rightarrow> 'r outcome \<times> statics_V2" where
  "lock_guard scope s =
     (if m_mutex s = Locked then (Blocks, s)
      else let (r, s1) = scope (emit Lock (s\<lparr>m_mutex := Locked\<rparr>))
           in (r, emit Unlock (s1\<lparr>m_mutex := Unlocked\<rparr>)))"

subsection \<open>The five accessors\<close>

text \<open>V1, lines 16-21.\<close>

definition getInstance_V1 :: "exn + nat \<Rightarrow> statics_V1 \<Rightarrow> ptr outcome \<times> statics_V1" where
  "getInstance_V1 answer s =
     (let (p, s1) = read_instance s in
      if p = nullptr then
        (case new_Singleton answer s1 of
           (Inl e, s2) \<Rightarrow> (Throws e, s2)
         | (Inr q, s2) \<Rightarrow> return_instance (write_instance q s2))
      else return_instance s1)"

text \<open>V2, lines 40-46: the body of V1 inside the scope of a lock guard.\<close>

definition V2_locked :: "exn + nat \<Rightarrow> statics_V2 \<Rightarrow> ptr outcome \<times> statics_V2" where
  "V2_locked answer s =
     (let (p, s1) = read_instance s in
      if p = nullptr then
        (case new_Singleton answer s1 of
           (Inl e, s2) \<Rightarrow> (Throws e, s2)
         | (Inr q, s2) \<Rightarrow> return_instance (write_instance q s2))
      else return_instance s1)"

definition getInstance_V2 :: "exn + nat \<Rightarrow> statics_V2 \<Rightarrow> ptr outcome \<times> statics_V2" where
  "getInstance_V2 answer s = lock_guard (V2_locked answer) s"

text \<open>
  V3, lines 67-75. The scope of the lock guard is the block of the outer \<open>if\<close>
  (lines 69-72); the \<open>return\<close> is outside it.
\<close>

definition V3_locked :: "exn + nat \<Rightarrow> statics_V2 \<Rightarrow> unit outcome \<times> statics_V2" where
  "V3_locked answer s =
     (let (p, s1) = read_instance s in
      if p = nullptr then
        (case new_Singleton answer s1 of
           (Inl e, s2) \<Rightarrow> (Throws e, s2)
         | (Inr q, s2) \<Rightarrow> (Returns (), write_instance q s2))
      else (Returns (), s1))"

definition getInstance_V3 :: "exn + nat \<Rightarrow> statics_V2 \<Rightarrow> ptr outcome \<times> statics_V2" where
  "getInstance_V3 answer s =
     (let (p, s1) = read_instance s in
      if p = nullptr then
        (case lock_guard (V3_locked answer) s1 of
           (Returns u, s2) \<Rightarrow> return_instance s2
         | (Throws e, s2) \<Rightarrow> (Throws e, s2)
         | (Blocks, s2) \<Rightarrow> (Blocks, s2))
      else return_instance s1)"

text \<open>
  V4, lines 96-110. The local \<open>tmp\<close> is what the call returns; the scope of the lock
  guard (lines 101-107) hands its last value of \<open>tmp\<close> on.
\<close>

definition V4_locked :: "exn + nat \<Rightarrow> statics_V2 \<Rightarrow> ptr outcome \<times> statics_V2" where
  "V4_locked answer s =
     (let (tmp, s1) = load relaxed s in
      if tmp = nullptr then
        (case new_Singleton answer s1 of
           (Inl e, s2) \<Rightarrow> (Throws e, s2)
         | (Inr tmp', s2) \<Rightarrow>
             (let s3 = atomic_thread_fence release s2;
                  s4 = store tmp' relaxed s3
              in (Returns tmp', s4)))
      else (Returns tmp, s1))"

definition getInstance_V4 :: "exn + nat \<Rightarrow> statics_V2 \<Rightarrow> ptr outcome \<times> statics_V2" where
  "getInstance_V4 answer s =
     (let (tmp, s1) = load relaxed s;
          s2 = atomic_thread_fence acquire s1
      in if tmp = nullptr then lock_guard (V4_locked answer) s2
         else (Returns tmp, s2))"

text \<open>
  V5, lines 123-126. Control passes the declaration of the block-scope static: the
  first time the object is constructed in its storage (nothing is allocated, and the
  defaulted constructor cannot throw), later the declaration does nothing. The call
  returns a reference to the static: a reference is never null.
\<close>

definition getInstance_V5 :: "statics_V5 \<Rightarrow> object \<times> statics_V5" where
  "getInstance_V5 s =
     (let s1 = (if instance_initialized s then s
                else emit (Ctor static_object)
                       (s\<lparr>constructed := constructed s @ [static_object],
                          instance_initialized := True\<rparr>))
      in (static_object, s1))"

subsection \<open>Sequential runs\<close>

text \<open>
  One thread calls the accessor once for each element of a list of inputs. A call that
  throws is followed by the next call (the caller caught the exception); a call that
  blocks is the last one.
\<close>

fun calls :: "('c \<Rightarrow> 's \<Rightarrow> 'r outcome \<times> 's) \<Rightarrow> 'c list \<Rightarrow> 's \<Rightarrow> 'r outcome list \<times> 's" where
  "calls f [] s = ([], s)"
| "calls f (c # cs) s =
     (case f c s of
        (Blocks, s1) \<Rightarrow> ([Blocks], s1)
      | (r, s1) \<Rightarrow> (let (rs, s2) = calls f cs s1 in (r # rs, s2)))"

fun calls_V5 :: "nat \<Rightarrow> statics_V5 \<Rightarrow> object list \<times> statics_V5" where
  "calls_V5 0 s = ([], s)"
| "calls_V5 (Suc n) s =
     (let (x, s1) = getInstance_V5 s; (xs, s2) = calls_V5 n s1 in (x # xs, s2))"

subsection \<open>Reading the state\<close>

text \<open>The events that change the pointer.\<close>

fun is_write :: "event \<Rightarrow> bool" where
  "is_write (Write p) = True"
| "is_write (Store order p) = True"
| "is_write e = False"

text \<open>The events that take the mutex, and those that construct an object.\<close>

fun is_lock :: "event \<Rightarrow> bool" where
  "is_lock Lock = True"
| "is_lock e = False"

fun is_ctor :: "event \<Rightarrow> bool" where
  "is_ctor (Ctor x) = True"
| "is_ctor e = False"

text \<open>
  The state of a process that has done nothing but call the accessor: no object was
  constructed while the pointer is null, and afterwards the one object it points to.
\<close>

definition one_instance :: "'a statics_V1_scheme \<Rightarrow> bool" where
  "one_instance s = (constructed s = (case m_instance s of nullptr \<Rightarrow> [] | addr x \<Rightarrow> [x]))"

text \<open>A pointer that is not null points to an object whose constructor has completed.\<close>

definition points_to_constructed :: "'a statics_V1_scheme \<Rightarrow> bool" where
  "points_to_constructed s =
     (case m_instance s of nullptr \<Rightarrow> True | addr x \<Rightarrow> x \<in> set (constructed s))"

subsection \<open>The contract of the specification\<close>

text \<open>
  This part follows the words of the specification, not the source. Its handle slot is
  unset or refers to the Instance; \<open>instances\<close> lists every Instance constructed.
  \<open>getInstance\<close> constructs the Instance when the slot is unset and returns the slot's
  Instance on every call; when construction fails the error goes to the caller and the
  slot stays unset. The first argument is how a construction, if there is one, ends.
\<close>

record handle =
  slot :: "object option"
  instances :: "object list"

definition unset :: handle where
  "unset = \<lparr>slot = None, instances = []\<rparr>"

definition spec_getInstance :: "exn + object \<Rightarrow> handle \<Rightarrow> object outcome \<times> handle" where
  "spec_getInstance construction h =
     (case slot h of
        Some i \<Rightarrow> (Returns i, h)
      | None \<Rightarrow>
          (case construction of
             Inl e \<Rightarrow> (Throws e, h)
           | Inr i \<Rightarrow> (Returns i, \<lparr>slot = Some i, instances = instances h @ [i]\<rparr>)))"

text \<open>How the state of each variant is read as a handle.\<close>

definition slot_of :: "ptr \<Rightarrow> object option" where
  "slot_of p = (case p of nullptr \<Rightarrow> None | addr x \<Rightarrow> Some x)"

definition handle_of :: "'a statics_V1_scheme \<Rightarrow> handle" where
  "handle_of s = \<lparr>slot = slot_of (m_instance s), instances = constructed s\<rparr>"

definition handle_of_V5 :: "statics_V5 \<Rightarrow> handle" where
  "handle_of_V5 s =
     \<lparr>slot = (if instance_initialized s then Some static_object else None),
      instances = constructed s\<rparr>"

text \<open>The allocator's answer, read as the outcome of a construction.\<close>

definition construction_of :: "exn + nat \<Rightarrow> exn + object" where
  "construction_of answer = (case answer of Inl e \<Rightarrow> Inl e | Inr a \<Rightarrow> Inr (heap_object a))"

section \<open>What one call does\<close>

text \<open>
  Each accessor has few paths; the lemmas below give the outcome and the whole state
  after each of them.
\<close>

lemmas prims = emit_def new_Singleton_def read_instance_def write_instance_def
  return_instance_def load_def store_def atomic_thread_fence_def lock_guard_def

lemma V1_set:
  "m_instance s = addr x \<Longrightarrow>
   getInstance_V1 c s = (Returns (addr x), s\<lparr>trace := trace s @ [Read (addr x), Read (addr x)]\<rparr>)"
  by (simp add: getInstance_V1_def prims)

lemma V1_unset_ok:
  "m_instance s = nullptr \<Longrightarrow>
   getInstance_V1 (Inr a) s =
     (Returns (addr (heap_object a)),
      s\<lparr>constructed := constructed s @ [heap_object a],
        trace := trace s @ [Read nullptr, Ctor (heap_object a), Write (addr (heap_object a)),
                            Read (addr (heap_object a))],
        m_instance := addr (heap_object a)\<rparr>)"
  by (simp add: getInstance_V1_def prims)

lemma V1_unset_throw:
  "m_instance s = nullptr \<Longrightarrow>
   getInstance_V1 (Inl e) s = (Throws e, s\<lparr>trace := trace s @ [Read nullptr, New_throws e]\<rparr>)"
  by (simp add: getInstance_V1_def prims)

lemma V2_blocks: "m_mutex s = Locked \<Longrightarrow> getInstance_V2 c s = (Blocks, s)"
  by (simp add: getInstance_V2_def prims)

lemma V2_set:
  "m_mutex s = Unlocked \<Longrightarrow> m_instance s = addr x \<Longrightarrow>
   getInstance_V2 c s =
     (Returns (addr x), s\<lparr>trace := trace s @ [Lock, Read (addr x), Read (addr x), Unlock]\<rparr>)"
  by (simp add: getInstance_V2_def V2_locked_def prims)

lemma V2_unset_ok:
  "m_mutex s = Unlocked \<Longrightarrow> m_instance s = nullptr \<Longrightarrow>
   getInstance_V2 (Inr a) s =
     (Returns (addr (heap_object a)),
      s\<lparr>constructed := constructed s @ [heap_object a],
        trace := trace s @ [Lock, Read nullptr, Ctor (heap_object a),
                            Write (addr (heap_object a)), Read (addr (heap_object a)), Unlock],
        m_instance := addr (heap_object a)\<rparr>)"
  by (simp add: getInstance_V2_def V2_locked_def prims)

lemma V2_unset_throw:
  "m_mutex s = Unlocked \<Longrightarrow> m_instance s = nullptr \<Longrightarrow>
   getInstance_V2 (Inl e) s =
     (Throws e, s\<lparr>trace := trace s @ [Lock, Read nullptr, New_throws e, Unlock]\<rparr>)"
  by (simp add: getInstance_V2_def V2_locked_def prims)

lemma V3_set:
  "m_instance s = addr x \<Longrightarrow>
   getInstance_V3 c s = (Returns (addr x), s\<lparr>trace := trace s @ [Read (addr x), Read (addr x)]\<rparr>)"
  by (simp add: getInstance_V3_def prims)

lemma V3_blocks:
  "m_mutex s = Locked \<Longrightarrow> m_instance s = nullptr \<Longrightarrow>
   getInstance_V3 c s = (Blocks, s\<lparr>trace := trace s @ [Read nullptr]\<rparr>)"
  by (simp add: getInstance_V3_def prims)

lemma V3_unset_ok:
  "m_mutex s = Unlocked \<Longrightarrow> m_instance s = nullptr \<Longrightarrow>
   getInstance_V3 (Inr a) s =
     (Returns (addr (heap_object a)),
      s\<lparr>constructed := constructed s @ [heap_object a],
        trace := trace s @ [Read nullptr, Lock, Read nullptr, Ctor (heap_object a),
                            Write (addr (heap_object a)), Unlock, Read (addr (heap_object a))],
        m_instance := addr (heap_object a)\<rparr>)"
  by (simp add: getInstance_V3_def V3_locked_def prims)

lemma V3_unset_throw:
  "m_mutex s = Unlocked \<Longrightarrow> m_instance s = nullptr \<Longrightarrow>
   getInstance_V3 (Inl e) s =
     (Throws e, s\<lparr>trace := trace s @ [Read nullptr, Lock, Read nullptr, New_throws e, Unlock]\<rparr>)"
  by (simp add: getInstance_V3_def V3_locked_def prims)

lemma V4_set:
  "m_instance s = addr x \<Longrightarrow>
   getInstance_V4 c s =
     (Returns (addr x), s\<lparr>trace := trace s @ [Load relaxed (addr x), Fence acquire]\<rparr>)"
  by (simp add: getInstance_V4_def prims)

lemma V4_blocks:
  "m_mutex s = Locked \<Longrightarrow> m_instance s = nullptr \<Longrightarrow>
   getInstance_V4 c s = (Blocks, s\<lparr>trace := trace s @ [Load relaxed nullptr, Fence acquire]\<rparr>)"
  by (simp add: getInstance_V4_def prims)

lemma V4_unset_ok:
  "m_mutex s = Unlocked \<Longrightarrow> m_instance s = nullptr \<Longrightarrow>
   getInstance_V4 (Inr a) s =
     (Returns (addr (heap_object a)),
      s\<lparr>constructed := constructed s @ [heap_object a],
        trace := trace s @ [Load relaxed nullptr, Fence acquire, Lock, Load relaxed nullptr,
                            Ctor (heap_object a), Fence release,
                            Store relaxed (addr (heap_object a)), Unlock],
        m_instance := addr (heap_object a)\<rparr>)"
  by (simp add: getInstance_V4_def V4_locked_def prims)

lemma V4_unset_throw:
  "m_mutex s = Unlocked \<Longrightarrow> m_instance s = nullptr \<Longrightarrow>
   getInstance_V4 (Inl e) s =
     (Throws e, s\<lparr>trace := trace s @ [Load relaxed nullptr, Fence acquire, Lock,
                                       Load relaxed nullptr, New_throws e, Unlock]\<rparr>)"
  by (simp add: getInstance_V4_def V4_locked_def prims)

lemma V5_set:
  "instance_initialized s \<Longrightarrow> getInstance_V5 s = (static_object, s)"
  by (simp add: getInstance_V5_def)

lemma V5_unset:
  "\<not> instance_initialized s \<Longrightarrow>
   getInstance_V5 s =
     (static_object,
      s\<lparr>constructed := constructed s @ [static_object],
        trace := trace s @ [Ctor static_object], instance_initialized := True\<rparr>)"
  by (simp add: getInstance_V5_def prims)

section \<open>Runs on a pointer that is set\<close>

lemma V1_run_set:
  "m_instance s = addr x \<Longrightarrow>
   calls getInstance_V1 cs s =
     (replicate (length cs) (Returns (addr x)),
      s\<lparr>trace := trace s @ concat (replicate (length cs) [Read (addr x), Read (addr x)])\<rparr>)"
proof (induction cs arbitrary: s)
  case Nil
  then show ?case by simp
next
  case (Cons c cs)
  let ?s1 = "s\<lparr>trace := trace s @ [Read (addr x), Read (addr x)]\<rparr>"
  have step: "getInstance_V1 c s = (Returns (addr x), ?s1)"
    using Cons.prems by (rule V1_set)
  have "m_instance ?s1 = addr x" using Cons.prems by simp
  from Cons.IH [OF this] step show ?case by simp
qed

lemma V2_run_set:
  "m_mutex s = Unlocked \<Longrightarrow> m_instance s = addr x \<Longrightarrow>
   calls getInstance_V2 cs s =
     (replicate (length cs) (Returns (addr x)),
      s\<lparr>trace := trace s @
           concat (replicate (length cs) [Lock, Read (addr x), Read (addr x), Unlock])\<rparr>)"
proof (induction cs arbitrary: s)
  case Nil
  then show ?case by simp
next
  case (Cons c cs)
  let ?s1 = "s\<lparr>trace := trace s @ [Lock, Read (addr x), Read (addr x), Unlock]\<rparr>"
  have step: "getInstance_V2 c s = (Returns (addr x), ?s1)"
    using Cons.prems by (rule V2_set)
  have "m_mutex ?s1 = Unlocked" "m_instance ?s1 = addr x" using Cons.prems by simp_all
  from Cons.IH [OF this] step show ?case by simp
qed

lemma V3_run_set:
  "m_instance s = addr x \<Longrightarrow>
   calls getInstance_V3 cs s =
     (replicate (length cs) (Returns (addr x)),
      s\<lparr>trace := trace s @ concat (replicate (length cs) [Read (addr x), Read (addr x)])\<rparr>)"
proof (induction cs arbitrary: s)
  case Nil
  then show ?case by simp
next
  case (Cons c cs)
  let ?s1 = "s\<lparr>trace := trace s @ [Read (addr x), Read (addr x)]\<rparr>"
  have step: "getInstance_V3 c s = (Returns (addr x), ?s1)"
    using Cons.prems by (rule V3_set)
  have "m_instance ?s1 = addr x" using Cons.prems by simp
  from Cons.IH [OF this] step show ?case by simp
qed

lemma V4_run_set:
  "m_instance s = addr x \<Longrightarrow>
   calls getInstance_V4 cs s =
     (replicate (length cs) (Returns (addr x)),
      s\<lparr>trace := trace s @
           concat (replicate (length cs) [Load relaxed (addr x), Fence acquire])\<rparr>)"
proof (induction cs arbitrary: s)
  case Nil
  then show ?case by simp
next
  case (Cons c cs)
  let ?s1 = "s\<lparr>trace := trace s @ [Load relaxed (addr x), Fence acquire]\<rparr>"
  have step: "getInstance_V4 c s = (Returns (addr x), ?s1)"
    using Cons.prems by (rule V4_set)
  have "m_instance ?s1 = addr x" using Cons.prems by simp
  from Cons.IH [OF this] step show ?case by simp
qed

lemma V5_run_set:
  "instance_initialized s \<Longrightarrow> calls_V5 n s = (replicate n static_object, s)"
  by (induction n) (simp_all add: V5_set)

section \<open>V1 in a single thread\<close>

text \<open>
  Claim C6. One thread calls the accessor of V1 from the initial state, the pointer
  null. When the allocation of the first call succeeds with address \<open>a\<close>, the first
  call checks the pointer once, constructs one object and stores its address, with
  neither a lock nor a fence; that call and every later call, whatever the allocator
  would answer then, return that same pointer, and the one object stays the only one
  constructed.
\<close>

theorem V1_single_threaded:
  "calls getInstance_V1 (Inr a # cs) init_V1 =
     (replicate (Suc (length cs)) (Returns (addr (heap_object a))),
      \<lparr>constructed = [heap_object a],
        trace = [Read nullptr, Ctor (heap_object a), Write (addr (heap_object a)),
                 Read (addr (heap_object a))] @
                concat (replicate (length cs)
                  [Read (addr (heap_object a)), Read (addr (heap_object a))]),
        m_instance = addr (heap_object a)\<rparr>)"
proof -
  let ?p = "addr (heap_object a)"
  let ?s1 = "\<lparr>constructed = [heap_object a],
        trace = [Read nullptr, Ctor (heap_object a), Write ?p, Read ?p],
        m_instance = ?p\<rparr>"
  have first: "getInstance_V1 (Inr a) init_V1 = (Returns ?p, ?s1)"
    using V1_unset_ok [of init_V1 a] by (simp add: init_V1_def)
  have "m_instance ?s1 = ?p" by simp
  from V1_run_set [OF this, of cs] first show ?thesis by simp
qed

theorem V1_single_threaded_witness:
  "calls getInstance_V1 [Inr 7, Inl bad_alloc, Inr 8] init_V1 =
     ([Returns (addr (heap_object 7)), Returns (addr (heap_object 7)),
       Returns (addr (heap_object 7))],
      \<lparr>constructed = [heap_object 7],
        trace = [Read nullptr, Ctor (heap_object 7), Write (addr (heap_object 7)),
                 Read (addr (heap_object 7)),
                 Read (addr (heap_object 7)), Read (addr (heap_object 7)),
                 Read (addr (heap_object 7)), Read (addr (heap_object 7))],
        m_instance = addr (heap_object 7)\<rparr>)"
  using V1_single_threaded [of 7 "[Inl bad_alloc, Inr 8]"] by (simp add: numeral_2_eq_2)

section \<open>Events that write\<close>

lemma no_write_in_reads:
  "filter is_write (concat (replicate n [Read p, Read q])) = []"
  by (induction n) simp_all

lemma no_write_in_locked_reads:
  "filter is_write (concat (replicate n [Lock, Read p, Read q, Unlock])) = []"
  by (induction n) simp_all

lemma no_write_in_loads:
  "filter is_write (concat (replicate n [Load relaxed p, Fence acquire])) = []"
  by (induction n) simp_all

section \<open>The shape of V3\<close>

text \<open>
  Claim C7. The accessor of V3 first reads the pointer without the lock. When that read
  sees a pointer that is set, the call returns it after two reads and nothing else: the
  mutex is not taken (whatever its state), nothing is constructed. Only when the read
  sees null does the call take the mutex; under it, it reads the pointer again and, the
  pointer still null, evaluates the new-expression, stores the result and unlocks (it
  unlocks as well when the expression throws); when the mutex is held, the call blocks
  after its first read. The last conjunct is the second check finding the pointer set,
  as after a store by another thread between the first read and the lock: the scope of
  the lock guard then reads the pointer and constructs nothing.
\<close>

theorem V3_locks_on_slow_path_only:
  "(m_instance s = addr x \<longrightarrow>
      getInstance_V3 c s =
        (Returns (addr x), s\<lparr>trace := trace s @ [Read (addr x), Read (addr x)]\<rparr>) \<and>
      filter is_lock (trace (snd (getInstance_V3 c s))) = filter is_lock (trace s) \<and>
      filter is_ctor (trace (snd (getInstance_V3 c s))) = filter is_ctor (trace s) \<and>
      constructed (snd (getInstance_V3 c s)) = constructed s) \<and>
   (m_instance s = nullptr \<longrightarrow> m_mutex s = Unlocked \<longrightarrow>
      getInstance_V3 (Inr a) s =
        (Returns (addr (heap_object a)),
         s\<lparr>constructed := constructed s @ [heap_object a],
           trace := trace s @ [Read nullptr, Lock, Read nullptr, Ctor (heap_object a),
                               Write (addr (heap_object a)), Unlock,
                               Read (addr (heap_object a))],
           m_instance := addr (heap_object a)\<rparr>) \<and>
      getInstance_V3 (Inl e) s =
        (Throws e,
         s\<lparr>trace := trace s @ [Read nullptr, Lock, Read nullptr, New_throws e, Unlock]\<rparr>)) \<and>
   (m_instance s = nullptr \<longrightarrow> m_mutex s = Locked \<longrightarrow>
      getInstance_V3 c s = (Blocks, s\<lparr>trace := trace s @ [Read nullptr]\<rparr>)) \<and>
   (m_instance s = addr x \<longrightarrow> m_mutex s = Unlocked \<longrightarrow>
      lock_guard (V3_locked c) s =
        (Returns (), s\<lparr>trace := trace s @ [Lock, Read (addr x), Unlock]\<rparr>))"
proof (intro conjI impI)
  assume set: "m_instance s = addr x"
  show fast: "getInstance_V3 c s =
      (Returns (addr x), s\<lparr>trace := trace s @ [Read (addr x), Read (addr x)]\<rparr>)"
    using set by (rule V3_set)
  show "filter is_lock (trace (snd (getInstance_V3 c s))) = filter is_lock (trace s)"
    by (simp add: fast)
  show "filter is_ctor (trace (snd (getInstance_V3 c s))) = filter is_ctor (trace s)"
    by (simp add: fast)
  show "constructed (snd (getInstance_V3 c s)) = constructed s"
    by (simp add: fast)
next
  assume "m_instance s = nullptr" "m_mutex s = Unlocked"
  then show "getInstance_V3 (Inr a) s =
        (Returns (addr (heap_object a)),
         s\<lparr>constructed := constructed s @ [heap_object a],
           trace := trace s @ [Read nullptr, Lock, Read nullptr, Ctor (heap_object a),
                               Write (addr (heap_object a)), Unlock,
                               Read (addr (heap_object a))],
           m_instance := addr (heap_object a)\<rparr>)"
    by (simp add: V3_unset_ok)
next
  assume "m_instance s = nullptr" "m_mutex s = Unlocked"
  then show "getInstance_V3 (Inl e) s =
        (Throws e,
         s\<lparr>trace := trace s @ [Read nullptr, Lock, Read nullptr, New_throws e, Unlock]\<rparr>)"
    by (simp add: V3_unset_throw)
next
  assume "m_instance s = nullptr" "m_mutex s = Locked"
  then show "getInstance_V3 c s = (Blocks, s\<lparr>trace := trace s @ [Read nullptr]\<rparr>)"
    by (simp add: V3_blocks)
next
  assume "m_instance s = addr x" "m_mutex s = Unlocked"
  then show "lock_guard (V3_locked c) s =
        (Returns (), s\<lparr>trace := trace s @ [Lock, Read (addr x), Unlock]\<rparr>)"
    by (simp add: V3_locked_def prims)
qed

theorem V3_locks_on_slow_path_only_witness:
  "getInstance_V3 (Inr 4) init_V2 =
     (Returns (addr (heap_object 4)),
      \<lparr>constructed = [heap_object 4],
        trace = [Read nullptr, Lock, Read nullptr, Ctor (heap_object 4),
                 Write (addr (heap_object 4)), Unlock, Read (addr (heap_object 4))],
        m_instance = addr (heap_object 4), m_mutex = Unlocked\<rparr>) \<and>
   getInstance_V3 (Inl bad_alloc) init_V2 =
     (Throws bad_alloc,
      \<lparr>constructed = [],
        trace = [Read nullptr, Lock, Read nullptr, New_throws bad_alloc, Unlock],
        m_instance = nullptr, m_mutex = Unlocked\<rparr>) \<and>
   getInstance_V3 (Inr 5)
     \<lparr>constructed = [heap_object 4], trace = [], m_instance = addr (heap_object 4),
      m_mutex = Locked\<rparr> =
     (Returns (addr (heap_object 4)),
      \<lparr>constructed = [heap_object 4],
        trace = [Read (addr (heap_object 4)), Read (addr (heap_object 4))],
        m_instance = addr (heap_object 4), m_mutex = Locked\<rparr>) \<and>
   getInstance_V3 (Inr 5)
     \<lparr>constructed = [], trace = [], m_instance = nullptr, m_mutex = Locked\<rparr> =
     (Blocks, \<lparr>constructed = [], trace = [Read nullptr], m_instance = nullptr,
               m_mutex = Locked\<rparr>) \<and>
   lock_guard (V3_locked (Inr 5))
     \<lparr>constructed = [heap_object 4], trace = [Read nullptr],
      m_instance = addr (heap_object 4), m_mutex = Unlocked\<rparr> =
     (Returns (),
      \<lparr>constructed = [heap_object 4],
        trace = [Read nullptr, Lock, Read (addr (heap_object 4)), Unlock],
        m_instance = addr (heap_object 4), m_mutex = Unlocked\<rparr>)"
  using V3_locks_on_slow_path_only [of init_V2 "heap_object 4" "Inr 4" 4 bad_alloc]
    V3_locks_on_slow_path_only
      [of "\<lparr>constructed = [heap_object 4], trace = [], m_instance = addr (heap_object 4),
             m_mutex = Locked\<rparr>" "heap_object 4" "Inr 5" 5 bad_alloc]
    V3_locks_on_slow_path_only
      [of "\<lparr>constructed = [], trace = [], m_instance = nullptr, m_mutex = Locked\<rparr>"
          "heap_object 4" "Inr 5" 5 bad_alloc]
    V3_locks_on_slow_path_only
      [of "\<lparr>constructed = [heap_object 4], trace = [Read nullptr],
             m_instance = addr (heap_object 4), m_mutex = Unlocked\<rparr>"
          "heap_object 4" "Inr 5" 5 bad_alloc]
  by (simp add: init_V2_def)

section \<open>The pointer is written once\<close>

lemma V2_run_locked:
  "m_mutex s = Locked \<Longrightarrow> calls getInstance_V2 (c # cs) s = ([Blocks], s)"
  by (simp add: V2_blocks)

text \<open>
  Claim C9. In every variant, once the pointer is set (in V5: once the static is
  initialised), any number of further calls return exactly the stored pointer and leave
  it as it is; they add no writing event to the trace and construct nothing. V2 takes
  its mutex on every call, so there the mutex must be free; when it is held, the call
  blocks and changes nothing either. V3 and V4 do not touch the mutex then. For each
  variant the conjunct after that of its runs is the converse, for one call from any
  state: a call that changes the pointer found it null.
\<close>

theorem pointer_written_once:
  "(m_instance s1 = addr x \<longrightarrow>
      (case calls getInstance_V1 cs s1 of (rs, s1') \<Rightarrow>
         rs = replicate (length cs) (Returns (addr x)) \<and> m_instance s1' = addr x \<and>
         filter is_write (trace s1') = filter is_write (trace s1) \<and>
         constructed s1' = constructed s1)) \<and>
   (m_instance (snd (getInstance_V1 c s1)) \<noteq> m_instance s1 \<longrightarrow> m_instance s1 = nullptr) \<and>
   (m_instance s = addr x \<longrightarrow> m_mutex s = Unlocked \<longrightarrow>
      (case calls getInstance_V2 cs s of (rs, s') \<Rightarrow>
         rs = replicate (length cs) (Returns (addr x)) \<and> m_instance s' = addr x \<and>
         filter is_write (trace s') = filter is_write (trace s) \<and>
         constructed s' = constructed s)) \<and>
   (m_instance s = addr x \<longrightarrow> m_mutex s = Locked \<longrightarrow>
      calls getInstance_V2 (c # cs) s = ([Blocks], s)) \<and>
   (m_instance (snd (getInstance_V2 c s)) \<noteq> m_instance s \<longrightarrow> m_instance s = nullptr) \<and>
   (m_instance s = addr x \<longrightarrow>
      (case calls getInstance_V3 cs s of (rs, s') \<Rightarrow>
         rs = replicate (length cs) (Returns (addr x)) \<and> m_instance s' = addr x \<and>
         filter is_write (trace s') = filter is_write (trace s) \<and>
         constructed s' = constructed s \<and> m_mutex s' = m_mutex s)) \<and>
   (m_instance (snd (getInstance_V3 c s)) \<noteq> m_instance s \<longrightarrow> m_instance s = nullptr) \<and>
   (m_instance s = addr x \<longrightarrow>
      (case calls getInstance_V4 cs s of (rs, s') \<Rightarrow>
         rs = replicate (length cs) (Returns (addr x)) \<and> m_instance s' = addr x \<and>
         filter is_write (trace s') = filter is_write (trace s) \<and>
         constructed s' = constructed s \<and> m_mutex s' = m_mutex s)) \<and>
   (m_instance (snd (getInstance_V4 c s)) \<noteq> m_instance s \<longrightarrow> m_instance s = nullptr) \<and>
   (instance_initialized s5 \<longrightarrow> calls_V5 n s5 = (replicate n static_object, s5)) \<and>
   (snd (getInstance_V5 s5) \<noteq> s5 \<longrightarrow> \<not> instance_initialized s5)"
proof (intro conjI impI)
  assume "m_instance s1 = addr x"
  then show "case calls getInstance_V1 cs s1 of (rs, s1') \<Rightarrow>
         rs = replicate (length cs) (Returns (addr x)) \<and> m_instance s1' = addr x \<and>
         filter is_write (trace s1') = filter is_write (trace s1) \<and>
         constructed s1' = constructed s1"
    by (simp add: V1_run_set no_write_in_reads)
next
  assume changed: "m_instance (snd (getInstance_V1 c s1)) \<noteq> m_instance s1"
  show "m_instance s1 = nullptr"
  proof (cases "m_instance s1")
    case nullptr
    then show ?thesis .
  next
    case (addr y)
    with changed show ?thesis by (simp add: V1_set)
  qed
next
  assume "m_instance s = addr x" "m_mutex s = Unlocked"
  then show "case calls getInstance_V2 cs s of (rs, s') \<Rightarrow>
         rs = replicate (length cs) (Returns (addr x)) \<and> m_instance s' = addr x \<and>
         filter is_write (trace s') = filter is_write (trace s) \<and>
         constructed s' = constructed s"
    by (simp add: V2_run_set no_write_in_locked_reads)
next
  assume "m_mutex s = Locked"
  then show "calls getInstance_V2 (c # cs) s = ([Blocks], s)"
    by (rule V2_run_locked)
next
  assume changed: "m_instance (snd (getInstance_V2 c s)) \<noteq> m_instance s"
  show "m_instance s = nullptr"
  proof (cases "m_instance s")
    case nullptr
    then show ?thesis .
  next
    case (addr y)
    with changed show ?thesis
      by (cases "m_mutex s") (simp_all add: V2_set V2_blocks)
  qed
next
  assume "m_instance s = addr x"
  then show "case calls getInstance_V3 cs s of (rs, s') \<Rightarrow>
         rs = replicate (length cs) (Returns (addr x)) \<and> m_instance s' = addr x \<and>
         filter is_write (trace s') = filter is_write (trace s) \<and>
         constructed s' = constructed s \<and> m_mutex s' = m_mutex s"
    by (simp add: V3_run_set no_write_in_reads)
next
  assume changed: "m_instance (snd (getInstance_V3 c s)) \<noteq> m_instance s"
  show "m_instance s = nullptr"
  proof (cases "m_instance s")
    case nullptr
    then show ?thesis .
  next
    case (addr y)
    with changed show ?thesis by (simp add: V3_set)
  qed
next
  assume "m_instance s = addr x"
  then show "case calls getInstance_V4 cs s of (rs, s') \<Rightarrow>
         rs = replicate (length cs) (Returns (addr x)) \<and> m_instance s' = addr x \<and>
         filter is_write (trace s') = filter is_write (trace s) \<and>
         constructed s' = constructed s \<and> m_mutex s' = m_mutex s"
    by (simp add: V4_run_set no_write_in_loads)
next
  assume changed: "m_instance (snd (getInstance_V4 c s)) \<noteq> m_instance s"
  show "m_instance s = nullptr"
  proof (cases "m_instance s")
    case nullptr
    then show ?thesis .
  next
    case (addr y)
    with changed show ?thesis by (simp add: V4_set)
  qed
next
  assume "instance_initialized s5"
  then show "calls_V5 n s5 = (replicate n static_object, s5)"
    by (rule V5_run_set)
next
  assume changed: "snd (getInstance_V5 s5) \<noteq> s5"
  show "\<not> instance_initialized s5"
  proof
    assume "instance_initialized s5"
    with changed show False by (simp add: V5_set)
  qed
qed

theorem pointer_written_once_witness:
  "calls getInstance_V1 [Inr 1, Inl bad_alloc]
     \<lparr>constructed = [heap_object 0], trace = [], m_instance = addr (heap_object 0)\<rparr> =
     ([Returns (addr (heap_object 0)), Returns (addr (heap_object 0))],
      \<lparr>constructed = [heap_object 0],
        trace = [Read (addr (heap_object 0)), Read (addr (heap_object 0)),
                 Read (addr (heap_object 0)), Read (addr (heap_object 0))],
        m_instance = addr (heap_object 0)\<rparr>) \<and>
   calls getInstance_V2 [Inr 1, Inl bad_alloc]
     \<lparr>constructed = [heap_object 0], trace = [], m_instance = addr (heap_object 0),
      m_mutex = Unlocked\<rparr> =
     ([Returns (addr (heap_object 0)), Returns (addr (heap_object 0))],
      \<lparr>constructed = [heap_object 0],
        trace = [Lock, Read (addr (heap_object 0)), Read (addr (heap_object 0)), Unlock,
                 Lock, Read (addr (heap_object 0)), Read (addr (heap_object 0)), Unlock],
        m_instance = addr (heap_object 0), m_mutex = Unlocked\<rparr>) \<and>
   calls getInstance_V2 [Inr 1, Inl bad_alloc]
     \<lparr>constructed = [heap_object 0], trace = [], m_instance = addr (heap_object 0),
      m_mutex = Locked\<rparr> =
     ([Blocks],
      \<lparr>constructed = [heap_object 0], trace = [], m_instance = addr (heap_object 0),
        m_mutex = Locked\<rparr>) \<and>
   calls getInstance_V3 [Inr 1, Inl bad_alloc]
     \<lparr>constructed = [heap_object 0], trace = [], m_instance = addr (heap_object 0),
      m_mutex = Locked\<rparr> =
     ([Returns (addr (heap_object 0)), Returns (addr (heap_object 0))],
      \<lparr>constructed = [heap_object 0],
        trace = [Read (addr (heap_object 0)), Read (addr (heap_object 0)),
                 Read (addr (heap_object 0)), Read (addr (heap_object 0))],
        m_instance = addr (heap_object 0), m_mutex = Locked\<rparr>) \<and>
   calls getInstance_V4 [Inr 1, Inl bad_alloc]
     \<lparr>constructed = [heap_object 0], trace = [], m_instance = addr (heap_object 0),
      m_mutex = Locked\<rparr> =
     ([Returns (addr (heap_object 0)), Returns (addr (heap_object 0))],
      \<lparr>constructed = [heap_object 0],
        trace = [Load relaxed (addr (heap_object 0)), Fence acquire,
                 Load relaxed (addr (heap_object 0)), Fence acquire],
        m_instance = addr (heap_object 0), m_mutex = Locked\<rparr>) \<and>
   calls_V5 2 \<lparr>constructed = [static_object], trace = [], instance_initialized = True\<rparr> =
     ([static_object, static_object],
      \<lparr>constructed = [static_object], trace = [], instance_initialized = True\<rparr>) \<and>
   m_instance (snd (getInstance_V1 (Inr 1) init_V1)) = addr (heap_object 1) \<and>
   m_instance (snd (getInstance_V2 (Inr 1) init_V2)) = addr (heap_object 1) \<and>
   m_instance (snd (getInstance_V3 (Inr 1) init_V2)) = addr (heap_object 1) \<and>
   m_instance (snd (getInstance_V4 (Inr 1) init_V2)) = addr (heap_object 1) \<and>
   m_instance init_V1 = nullptr \<and> m_instance init_V2 = nullptr \<and>
   snd (getInstance_V5 init_V5) \<noteq> init_V5 \<and> \<not> instance_initialized init_V5"
  using pointer_written_once
      [of "\<lparr>constructed = [heap_object 0], trace = [], m_instance = addr (heap_object 0)\<rparr>"
          "heap_object 0" "[Inr 1, Inl bad_alloc]" "Inr 1"
          "\<lparr>constructed = [heap_object 0], trace = [], m_instance = addr (heap_object 0),
            m_mutex = Unlocked\<rparr>"
          "\<lparr>constructed = [static_object], trace = [], instance_initialized = True\<rparr>" 2]
    pointer_written_once
      [of "\<lparr>constructed = [heap_object 0], trace = [], m_instance = addr (heap_object 0)\<rparr>"
          "heap_object 0" "[Inl bad_alloc]" "Inr 1"
          "\<lparr>constructed = [heap_object 0], trace = [], m_instance = addr (heap_object 0),
            m_mutex = Locked\<rparr>"
          "\<lparr>constructed = [static_object], trace = [], instance_initialized = True\<rparr>" 2]
    pointer_written_once [of init_V1 "heap_object 0" "[]" "Inr 1" init_V2 init_V5 0]
  by (simp add: V1_set V2_set V2_blocks V3_set V4_set V5_set V1_unset_ok V2_unset_ok
      V3_unset_ok V4_unset_ok V5_unset init_V1_def init_V2_def init_V5_def numeral_2_eq_2)

section \<open>The result is never null\<close>

lemma V1_returns:
  "getInstance_V1 c s = (Returns p, s') \<Longrightarrow> p \<noteq> nullptr \<and> m_instance s' = p"
  by (cases "m_instance s"; cases c) (auto simp: V1_set V1_unset_ok V1_unset_throw)

lemma V2_returns:
  "getInstance_V2 c s = (Returns p, s') \<Longrightarrow> p \<noteq> nullptr \<and> m_instance s' = p"
  by (cases "m_instance s"; cases c; cases "m_mutex s")
    (auto simp: V2_set V2_unset_ok V2_unset_throw V2_blocks)

lemma V3_returns:
  "getInstance_V3 c s = (Returns p, s') \<Longrightarrow> p \<noteq> nullptr \<and> m_instance s' = p"
  by (cases "m_instance s"; cases c; cases "m_mutex s")
    (auto simp: V3_set V3_unset_ok V3_unset_throw V3_blocks)

lemma V4_returns:
  "getInstance_V4 c s = (Returns p, s') \<Longrightarrow> p \<noteq> nullptr \<and> m_instance s' = p"
  by (cases "m_instance s"; cases c; cases "m_mutex s")
    (auto simp: V4_set V4_unset_ok V4_unset_throw V4_blocks)

lemma V1_constructed:
  assumes inv: "points_to_constructed s"
    and ret: "getInstance_V1 c s = (Returns p, s')"
  shows "\<exists>x. p = addr x \<and> x \<in> set (constructed s')"
proof (cases "m_instance s")
  case nullptr
    with ret show ?thesis
      by (cases c) (auto simp: V1_unset_ok V1_unset_throw)
next
  case (addr y)
    from ret have "p = addr y \<and> constructed s' = constructed s"
      unfolding V1_set [OF addr] by auto
    with addr inv show ?thesis by (simp add: points_to_constructed_def)
qed

lemma V2_constructed:
  assumes inv: "points_to_constructed s"
    and ret: "getInstance_V2 c s = (Returns p, s')"
  shows "\<exists>x. p = addr x \<and> x \<in> set (constructed s')"
proof (cases "m_instance s")
  case nullptr
    with ret show ?thesis
      by (cases c; cases "m_mutex s")
        (auto simp: V2_unset_ok V2_unset_throw V2_blocks)
next
  case (addr y)
    show ?thesis
    proof (cases "m_mutex s")
      case Unlocked
      from ret have "p = addr y \<and> constructed s' = constructed s"
        unfolding V2_set [OF Unlocked addr] by auto
      with addr inv show ?thesis by (simp add: points_to_constructed_def)
    next
      case Locked
      with ret show ?thesis by (simp add: V2_blocks)
    qed
qed

lemma V3_constructed:
  assumes inv: "points_to_constructed s"
    and ret: "getInstance_V3 c s = (Returns p, s')"
  shows "\<exists>x. p = addr x \<and> x \<in> set (constructed s')"
proof (cases "m_instance s")
  case nullptr
    with ret show ?thesis
      by (cases c; cases "m_mutex s")
        (auto simp: V3_unset_ok V3_unset_throw V3_blocks)
next
  case (addr y)
    from ret have "p = addr y \<and> constructed s' = constructed s"
      unfolding V3_set [OF addr] by auto
    with addr inv show ?thesis by (simp add: points_to_constructed_def)
qed

lemma V4_constructed:
  assumes inv: "points_to_constructed s"
    and ret: "getInstance_V4 c s = (Returns p, s')"
  shows "\<exists>x. p = addr x \<and> x \<in> set (constructed s')"
proof (cases "m_instance s")
  case nullptr
    with ret show ?thesis
      by (cases c; cases "m_mutex s")
        (auto simp: V4_unset_ok V4_unset_throw V4_blocks)
next
  case (addr y)
    from ret have "p = addr y \<and> constructed s' = constructed s"
      unfolding V4_set [OF addr] by auto
    with addr inv show ?thesis by (simp add: points_to_constructed_def)
qed

lemma V1_total: "\<exists>p s'. getInstance_V1 (Inr a) s = (Returns p, s')"
  by (cases "m_instance s") (simp_all add: V1_set V1_unset_ok)

lemma V2_total: "m_mutex s = Unlocked \<Longrightarrow> \<exists>p s'. getInstance_V2 (Inr a) s = (Returns p, s')"
  by (cases "m_instance s") (simp_all add: V2_set V2_unset_ok)

lemma V3_total: "m_mutex s = Unlocked \<Longrightarrow> \<exists>p s'. getInstance_V3 (Inr a) s = (Returns p, s')"
  by (cases "m_instance s") (simp_all add: V3_set V3_unset_ok)

lemma V4_total: "m_mutex s = Unlocked \<Longrightarrow> \<exists>p s'. getInstance_V4 (Inr a) s = (Returns p, s')"
  by (cases "m_instance s") (simp_all add: V4_set V4_unset_ok)

lemma V5_result:
  "fst (getInstance_V5 s) = static_object \<and> instance_initialized (snd (getInstance_V5 s))"
  by (simp add: getInstance_V5_def Let_def emit_def)

lemma V5_constructed:
  "(if instance_initialized s then static_object \<in> set (constructed s) else True) \<Longrightarrow>
   static_object \<in> set (constructed (snd (getInstance_V5 s)))"
  by (cases "instance_initialized s") (simp_all add: V5_set V5_unset)

text \<open>
  Claim C10. In V1 to V4 a call that returns never returns null: what it returns is the
  pointer then stored, and where the stored pointer, if any, pointed to a constructed
  object before the call, the result points to a constructed object after it. When the
  allocation succeeds (and, in V2 to V4, the mutex is free) the call does return. V5
  returns the reference to its static, which the call has initialised if it was not.
\<close>

theorem result_never_null:
  "(fst (getInstance_V1 c s1) = Returns p1 \<longrightarrow>
      p1 \<noteq> nullptr \<and> m_instance (snd (getInstance_V1 c s1)) = p1 \<and>
      (points_to_constructed s1 \<longrightarrow>
         (\<exists>x. p1 = addr x \<and> x \<in> set (constructed (snd (getInstance_V1 c s1)))))) \<and>
   (\<exists>p s'. getInstance_V1 (Inr a) s1 = (Returns p, s')) \<and>
   (fst (getInstance_V2 c s) = Returns p2 \<longrightarrow>
      p2 \<noteq> nullptr \<and> m_instance (snd (getInstance_V2 c s)) = p2 \<and>
      (points_to_constructed s \<longrightarrow>
         (\<exists>x. p2 = addr x \<and> x \<in> set (constructed (snd (getInstance_V2 c s)))))) \<and>
   (m_mutex s = Unlocked \<longrightarrow> (\<exists>p s'. getInstance_V2 (Inr a) s = (Returns p, s'))) \<and>
   (fst (getInstance_V3 c s) = Returns p3 \<longrightarrow>
      p3 \<noteq> nullptr \<and> m_instance (snd (getInstance_V3 c s)) = p3 \<and>
      (points_to_constructed s \<longrightarrow>
         (\<exists>x. p3 = addr x \<and> x \<in> set (constructed (snd (getInstance_V3 c s)))))) \<and>
   (m_mutex s = Unlocked \<longrightarrow> (\<exists>p s'. getInstance_V3 (Inr a) s = (Returns p, s'))) \<and>
   (fst (getInstance_V4 c s) = Returns p4 \<longrightarrow>
      p4 \<noteq> nullptr \<and> m_instance (snd (getInstance_V4 c s)) = p4 \<and>
      (points_to_constructed s \<longrightarrow>
         (\<exists>x. p4 = addr x \<and> x \<in> set (constructed (snd (getInstance_V4 c s)))))) \<and>
   (m_mutex s = Unlocked \<longrightarrow> (\<exists>p s'. getInstance_V4 (Inr a) s = (Returns p, s'))) \<and>
   fst (getInstance_V5 s5) = static_object \<and>
   instance_initialized (snd (getInstance_V5 s5)) \<and>
   ((if instance_initialized s5 then static_object \<in> set (constructed s5) else True) \<longrightarrow>
      static_object \<in> set (constructed (snd (getInstance_V5 s5))))"
proof (intro conjI impI)
  assume "fst (getInstance_V1 c s1) = Returns p1"
  then have ret: "getInstance_V1 c s1 = (Returns p1, snd (getInstance_V1 c s1))"
    by (simp add: prod_eq_iff)
  from V1_returns [OF ret] show "p1 \<noteq> nullptr"
    and "m_instance (snd (getInstance_V1 c s1)) = p1" by simp_all
  assume "points_to_constructed s1"
  from V1_constructed [OF this ret]
  show "\<exists>x. p1 = addr x \<and> x \<in> set (constructed (snd (getInstance_V1 c s1)))" .
next
  show "\<exists>p s'. getInstance_V1 (Inr a) s1 = (Returns p, s')"
    by (rule V1_total)
next
  assume "fst (getInstance_V2 c s) = Returns p2"
  then have ret: "getInstance_V2 c s = (Returns p2, snd (getInstance_V2 c s))"
    by (simp add: prod_eq_iff)
  from V2_returns [OF ret] show "p2 \<noteq> nullptr"
    and "m_instance (snd (getInstance_V2 c s)) = p2" by simp_all
  assume "points_to_constructed s"
  from V2_constructed [OF this ret]
  show "\<exists>x. p2 = addr x \<and> x \<in> set (constructed (snd (getInstance_V2 c s)))" .
next
  assume "m_mutex s = Unlocked"
  then show "\<exists>p s'. getInstance_V2 (Inr a) s = (Returns p, s')"
    by (rule V2_total)
next
  assume "fst (getInstance_V3 c s) = Returns p3"
  then have ret: "getInstance_V3 c s = (Returns p3, snd (getInstance_V3 c s))"
    by (simp add: prod_eq_iff)
  from V3_returns [OF ret] show "p3 \<noteq> nullptr"
    and "m_instance (snd (getInstance_V3 c s)) = p3" by simp_all
  assume "points_to_constructed s"
  from V3_constructed [OF this ret]
  show "\<exists>x. p3 = addr x \<and> x \<in> set (constructed (snd (getInstance_V3 c s)))" .
next
  assume "m_mutex s = Unlocked"
  then show "\<exists>p s'. getInstance_V3 (Inr a) s = (Returns p, s')"
    by (rule V3_total)
next
  assume "fst (getInstance_V4 c s) = Returns p4"
  then have ret: "getInstance_V4 c s = (Returns p4, snd (getInstance_V4 c s))"
    by (simp add: prod_eq_iff)
  from V4_returns [OF ret] show "p4 \<noteq> nullptr"
    and "m_instance (snd (getInstance_V4 c s)) = p4" by simp_all
  assume "points_to_constructed s"
  from V4_constructed [OF this ret]
  show "\<exists>x. p4 = addr x \<and> x \<in> set (constructed (snd (getInstance_V4 c s)))" .
next
  assume "m_mutex s = Unlocked"
  then show "\<exists>p s'. getInstance_V4 (Inr a) s = (Returns p, s')"
    by (rule V4_total)
next
  show "fst (getInstance_V5 s5) = static_object"
    and "instance_initialized (snd (getInstance_V5 s5))"
    using V5_result [of s5] by simp_all
next
  assume "if instance_initialized s5 then static_object \<in> set (constructed s5) else True"
  then show "static_object \<in> set (constructed (snd (getInstance_V5 s5)))"
    by (rule V5_constructed)
qed

theorem result_never_null_witness:
  "fst (getInstance_V1 (Inr 3) init_V1) = Returns (addr (heap_object 3)) \<and>
   addr (heap_object 3) \<noteq> nullptr \<and>
   m_instance (snd (getInstance_V1 (Inr 3) init_V1)) = addr (heap_object 3) \<and>
   points_to_constructed init_V1 \<and>
   heap_object 3 \<in> set (constructed (snd (getInstance_V1 (Inr 3) init_V1))) \<and>
   m_mutex init_V2 = Unlocked \<and> points_to_constructed init_V2 \<and>
   fst (getInstance_V2 (Inr 3) init_V2) = Returns (addr (heap_object 3)) \<and>
   m_instance (snd (getInstance_V2 (Inr 3) init_V2)) = addr (heap_object 3) \<and>
   heap_object 3 \<in> set (constructed (snd (getInstance_V2 (Inr 3) init_V2))) \<and>
   fst (getInstance_V3 (Inr 3) init_V2) = Returns (addr (heap_object 3)) \<and>
   m_instance (snd (getInstance_V3 (Inr 3) init_V2)) = addr (heap_object 3) \<and>
   heap_object 3 \<in> set (constructed (snd (getInstance_V3 (Inr 3) init_V2))) \<and>
   fst (getInstance_V4 (Inr 3) init_V2) = Returns (addr (heap_object 3)) \<and>
   m_instance (snd (getInstance_V4 (Inr 3) init_V2)) = addr (heap_object 3) \<and>
   heap_object 3 \<in> set (constructed (snd (getInstance_V4 (Inr 3) init_V2))) \<and>
   fst (getInstance_V5 init_V5) = static_object \<and>
   instance_initialized (snd (getInstance_V5 init_V5)) \<and>
   static_object \<in> set (constructed (snd (getInstance_V5 init_V5)))"
  using result_never_null
      [of "Inr 3" init_V1 "addr (heap_object 3)" 3 init_V2 "addr (heap_object 3)"
          "addr (heap_object 3)" "addr (heap_object 3)" init_V5]
  by (simp add: V1_unset_ok V2_unset_ok V3_unset_ok V4_unset_ok V5_unset
      points_to_constructed_def init_V1_def init_V2_def init_V5_def)

section \<open>A new-expression that throws\<close>

lemma V1_throws:
  assumes "getInstance_V1 c s = (Throws e, s')"
  shows "c = Inl e \<and> m_instance s = nullptr \<and>
         s' = s\<lparr>trace := trace s @ [Read nullptr, New_throws e]\<rparr>"
proof (cases "m_instance s")
  case nullptr
  with assms show ?thesis
    by (cases c) (auto simp: V1_unset_ok V1_unset_throw)
next
  case (addr y)
  from assms show ?thesis unfolding V1_set [OF addr] by simp
qed

lemma V2_throws:
  assumes "getInstance_V2 c s = (Throws e, s')"
  shows "c = Inl e \<and> m_instance s = nullptr \<and> m_mutex s = Unlocked \<and>
         s' = s\<lparr>trace := trace s @ [Lock, Read nullptr, New_throws e, Unlock]\<rparr>"
proof (cases "m_mutex s")
  case Locked
  from assms show ?thesis unfolding V2_blocks [OF Locked] by simp
next
  case Unlocked
  show ?thesis
  proof (cases "m_instance s")
    case nullptr
    with assms Unlocked show ?thesis
      by (cases c) (auto simp: V2_unset_ok V2_unset_throw)
  next
    case (addr y)
    from assms show ?thesis unfolding V2_set [OF Unlocked addr] by simp
  qed
qed

lemma V3_throws:
  assumes "getInstance_V3 c s = (Throws e, s')"
  shows "c = Inl e \<and> m_instance s = nullptr \<and> m_mutex s = Unlocked \<and>
         s' = s\<lparr>trace := trace s @
                [Read nullptr, Lock, Read nullptr, New_throws e, Unlock]\<rparr>"
proof (cases "m_instance s")
  case (addr y)
  from assms show ?thesis unfolding V3_set [OF addr] by simp
next
  case nullptr
  show ?thesis
  proof (cases "m_mutex s")
    case Locked
    from assms show ?thesis unfolding V3_blocks [OF Locked nullptr] by simp
  next
    case Unlocked
    with assms nullptr show ?thesis
      by (cases c) (auto simp: V3_unset_ok V3_unset_throw)
  qed
qed

lemma V4_throws:
  assumes "getInstance_V4 c s = (Throws e, s')"
  shows "c = Inl e \<and> m_instance s = nullptr \<and> m_mutex s = Unlocked \<and>
         s' = s\<lparr>trace := trace s @
                [Load relaxed nullptr, Fence acquire, Lock, Load relaxed nullptr,
                 New_throws e, Unlock]\<rparr>"
proof (cases "m_instance s")
  case (addr y)
  from assms show ?thesis unfolding V4_set [OF addr] by simp
next
  case nullptr
  show ?thesis
  proof (cases "m_mutex s")
    case Locked
    from assms show ?thesis unfolding V4_blocks [OF Locked nullptr] by simp
  next
    case Unlocked
    with assms nullptr show ?thesis
      by (cases c) (auto simp: V4_unset_ok V4_unset_throw)
  qed
qed

text \<open>
  Claim C4. In V1 to V4 the only thing that can throw is the new-expression. When a
  call throws \<open>e\<close>, it is the exception of its new-expression, passed on to the caller;
  the pointer was null and is null after the call, no object has been added to those
  constructed, and the mutex of V2 to V4 is free again. So the next call evaluates the
  new-expression again: it returns the new object when the expression succeeds, and
  throws again when it does not. Conversely a new-expression that throws is never
  swallowed. The call of V5 allocates nothing and runs a defaulted constructor: it has
  no throwing path, which its type \<open>statics_V5 \<Rightarrow> object \<times> statics_V5\<close> records.
\<close>

theorem failed_construction_leaves_pointer_null:
  "(getInstance_V1 c s1 = (Throws e, s1') \<longrightarrow>
      c = Inl e \<and> m_instance s1' = nullptr \<and> constructed s1' = constructed s1 \<and>
      points_to_constructed s1' = points_to_constructed s1 \<and>
      fst (getInstance_V1 (Inr a) s1') = Returns (addr (heap_object a)) \<and>
      constructed (snd (getInstance_V1 (Inr a) s1')) = constructed s1 @ [heap_object a] \<and>
      fst (getInstance_V1 (Inl e') s1') = Throws e') \<and>
   (m_instance s1 = nullptr \<longrightarrow> fst (getInstance_V1 (Inl e) s1) = Throws e) \<and>
   (getInstance_V2 c s = (Throws e, s2') \<longrightarrow>
      c = Inl e \<and> m_instance s2' = nullptr \<and> constructed s2' = constructed s \<and>
      m_mutex s2' = Unlocked \<and> points_to_constructed s2' = points_to_constructed s \<and>
      fst (getInstance_V2 (Inr a) s2') = Returns (addr (heap_object a)) \<and>
      constructed (snd (getInstance_V2 (Inr a) s2')) = constructed s @ [heap_object a] \<and>
      fst (getInstance_V2 (Inl e') s2') = Throws e') \<and>
   (m_instance s = nullptr \<longrightarrow> m_mutex s = Unlocked \<longrightarrow> fst (getInstance_V2 (Inl e) s) = Throws e) \<and>
   (getInstance_V3 c s = (Throws e, s3') \<longrightarrow>
      c = Inl e \<and> m_instance s3' = nullptr \<and> constructed s3' = constructed s \<and>
      m_mutex s3' = Unlocked \<and> points_to_constructed s3' = points_to_constructed s \<and>
      fst (getInstance_V3 (Inr a) s3') = Returns (addr (heap_object a)) \<and>
      constructed (snd (getInstance_V3 (Inr a) s3')) = constructed s @ [heap_object a] \<and>
      fst (getInstance_V3 (Inl e') s3') = Throws e') \<and>
   (m_instance s = nullptr \<longrightarrow> m_mutex s = Unlocked \<longrightarrow> fst (getInstance_V3 (Inl e) s) = Throws e) \<and>
   (getInstance_V4 c s = (Throws e, s4') \<longrightarrow>
      c = Inl e \<and> m_instance s4' = nullptr \<and> constructed s4' = constructed s \<and>
      m_mutex s4' = Unlocked \<and> points_to_constructed s4' = points_to_constructed s \<and>
      fst (getInstance_V4 (Inr a) s4') = Returns (addr (heap_object a)) \<and>
      constructed (snd (getInstance_V4 (Inr a) s4')) = constructed s @ [heap_object a] \<and>
      fst (getInstance_V4 (Inl e') s4') = Throws e') \<and>
   (m_instance s = nullptr \<longrightarrow> m_mutex s = Unlocked \<longrightarrow> fst (getInstance_V4 (Inl e) s) = Throws e)"
proof (intro conjI impI)
  assume "getInstance_V1 c s1 = (Throws e, s1')"
  note t = V1_throws [OF this]
  from t show "c = Inl e" by simp
  from t show "m_instance s1' = nullptr" by simp
  from t show "constructed s1' = constructed s1" by simp
  from t show "points_to_constructed s1' = points_to_constructed s1"
    by (simp add: points_to_constructed_def)
  from t show "fst (getInstance_V1 (Inr a) s1') = Returns (addr (heap_object a))"
    by (simp add: V1_unset_ok)
  from t show "constructed (snd (getInstance_V1 (Inr a) s1')) = constructed s1 @ [heap_object a]"
    by (simp add: V1_unset_ok)
  from t show "fst (getInstance_V1 (Inl e') s1') = Throws e'"
    by (simp add: V1_unset_throw)
next
  assume "m_instance s1 = nullptr"
  then show "fst (getInstance_V1 (Inl e) s1) = Throws e"
    by (simp add: V1_unset_throw)
next
  assume "getInstance_V2 c s = (Throws e, s2')"
  note t = V2_throws [OF this]
  from t show "c = Inl e" by simp
  from t show "m_instance s2' = nullptr" by simp
  from t show "constructed s2' = constructed s" by simp
  from t show "m_mutex s2' = Unlocked" by simp
  from t show "points_to_constructed s2' = points_to_constructed s"
    by (simp add: points_to_constructed_def)
  from t show "fst (getInstance_V2 (Inr a) s2') = Returns (addr (heap_object a))"
    by (simp add: V2_unset_ok)
  from t show "constructed (snd (getInstance_V2 (Inr a) s2')) = constructed s @ [heap_object a]"
    by (simp add: V2_unset_ok)
  from t show "fst (getInstance_V2 (Inl e') s2') = Throws e'"
    by (simp add: V2_unset_throw)
next
  assume "m_instance s = nullptr" "m_mutex s = Unlocked"
  then show "fst (getInstance_V2 (Inl e) s) = Throws e"
    by (simp add: V2_unset_throw)
next
  assume "getInstance_V3 c s = (Throws e, s3')"
  note t = V3_throws [OF this]
  from t show "c = Inl e" by simp
  from t show "m_instance s3' = nullptr" by simp
  from t show "constructed s3' = constructed s" by simp
  from t show "m_mutex s3' = Unlocked" by simp
  from t show "points_to_constructed s3' = points_to_constructed s"
    by (simp add: points_to_constructed_def)
  from t show "fst (getInstance_V3 (Inr a) s3') = Returns (addr (heap_object a))"
    by (simp add: V3_unset_ok)
  from t show "constructed (snd (getInstance_V3 (Inr a) s3')) = constructed s @ [heap_object a]"
    by (simp add: V3_unset_ok)
  from t show "fst (getInstance_V3 (Inl e') s3') = Throws e'"
    by (simp add: V3_unset_throw)
next
  assume "m_instance s = nullptr" "m_mutex s = Unlocked"
  then show "fst (getInstance_V3 (Inl e) s) = Throws e"
    by (simp add: V3_unset_throw)
next
  assume "getInstance_V4 c s = (Throws e, s4')"
  note t = V4_throws [OF this]
  from t show "c = Inl e" by simp
  from t show "m_instance s4' = nullptr" by simp
  from t show "constructed s4' = constructed s" by simp
  from t show "m_mutex s4' = Unlocked" by simp
  from t show "points_to_constructed s4' = points_to_constructed s"
    by (simp add: points_to_constructed_def)
  from t show "fst (getInstance_V4 (Inr a) s4') = Returns (addr (heap_object a))"
    by (simp add: V4_unset_ok)
  from t show "constructed (snd (getInstance_V4 (Inr a) s4')) = constructed s @ [heap_object a]"
    by (simp add: V4_unset_ok)
  from t show "fst (getInstance_V4 (Inl e') s4') = Throws e'"
    by (simp add: V4_unset_throw)
next
  assume "m_instance s = nullptr" "m_mutex s = Unlocked"
  then show "fst (getInstance_V4 (Inl e) s) = Throws e"
    by (simp add: V4_unset_throw)
qed

theorem failed_construction_leaves_pointer_null_witness:
  "getInstance_V1 (Inl bad_alloc) init_V1 =
     (Throws bad_alloc,
      \<lparr>constructed = [], trace = [Read nullptr, New_throws bad_alloc],
        m_instance = nullptr\<rparr>) \<and>
   fst (getInstance_V1 (Inr 9)
     \<lparr>constructed = [], trace = [Read nullptr, New_throws bad_alloc],
      m_instance = nullptr\<rparr>) = Returns (addr (heap_object 9)) \<and>
   getInstance_V2 (Inl bad_alloc) init_V2 =
     (Throws bad_alloc,
      \<lparr>constructed = [], trace = [Lock, Read nullptr, New_throws bad_alloc, Unlock],
        m_instance = nullptr, m_mutex = Unlocked\<rparr>) \<and>
   fst (getInstance_V2 (Inr 9)
     \<lparr>constructed = [], trace = [Lock, Read nullptr, New_throws bad_alloc, Unlock],
      m_instance = nullptr, m_mutex = Unlocked\<rparr>) = Returns (addr (heap_object 9)) \<and>
   getInstance_V3 (Inl bad_alloc) init_V2 =
     (Throws bad_alloc,
      \<lparr>constructed = [],
        trace = [Read nullptr, Lock, Read nullptr, New_throws bad_alloc, Unlock],
        m_instance = nullptr, m_mutex = Unlocked\<rparr>) \<and>
   fst (getInstance_V3 (Inr 9)
     \<lparr>constructed = [],
      trace = [Read nullptr, Lock, Read nullptr, New_throws bad_alloc, Unlock],
      m_instance = nullptr, m_mutex = Unlocked\<rparr>) = Returns (addr (heap_object 9)) \<and>
   getInstance_V4 (Inl bad_alloc) init_V2 =
     (Throws bad_alloc,
      \<lparr>constructed = [],
        trace = [Load relaxed nullptr, Fence acquire, Lock, Load relaxed nullptr,
                 New_throws bad_alloc, Unlock],
        m_instance = nullptr, m_mutex = Unlocked\<rparr>) \<and>
   fst (getInstance_V4 (Inr 9)
     \<lparr>constructed = [],
      trace = [Load relaxed nullptr, Fence acquire, Lock, Load relaxed nullptr,
               New_throws bad_alloc, Unlock],
      m_instance = nullptr, m_mutex = Unlocked\<rparr>) = Returns (addr (heap_object 9))"
  using failed_construction_leaves_pointer_null
      [of "Inl bad_alloc" init_V1 bad_alloc
          "\<lparr>constructed = [], trace = [Read nullptr, New_throws bad_alloc],
            m_instance = nullptr\<rparr>"
          9 bad_alloc init_V2
          "\<lparr>constructed = [], trace = [Lock, Read nullptr, New_throws bad_alloc, Unlock],
            m_instance = nullptr, m_mutex = Unlocked\<rparr>"
          "\<lparr>constructed = [],
            trace = [Read nullptr, Lock, Read nullptr, New_throws bad_alloc, Unlock],
            m_instance = nullptr, m_mutex = Unlocked\<rparr>"
          "\<lparr>constructed = [],
            trace = [Load relaxed nullptr, Fence acquire, Lock, Load relaxed nullptr,
                     New_throws bad_alloc, Unlock],
            m_instance = nullptr, m_mutex = Unlocked\<rparr>"]
  by (simp add: V1_unset_throw V2_unset_throw V3_unset_throw V4_unset_throw
      init_V1_def init_V2_def)

section \<open>Invariants of sequential runs\<close>

lemma calls_invariant:
  assumes step: "\<And>c s r s'. P s \<Longrightarrow> f c s = (r, s') \<Longrightarrow> P s'"
    and start: "P s"
  shows "P (snd (calls f cs s))"
  using start
proof (induction cs arbitrary: s)
  case Nil
  then show ?case by simp
next
  case (Cons c cs)
  obtain r s1 where call: "f c s = (r, s1)" by (cases "f c s")
  from step [OF Cons.prems call] have "P s1" .
  then have "P (snd (calls f cs s1))" by (rule Cons.IH)
  with call \<open>P s1\<close> show ?case
    by (cases r) (simp_all add: split_beta)
qed

lemma V2_keeps_one_instance:
  assumes "m_mutex s = Unlocked \<and> one_instance s" and "getInstance_V2 c s = (r, s')"
  shows "m_mutex s' = Unlocked \<and> one_instance s'"
proof (cases "m_instance s")
  case nullptr
  with assms show ?thesis
    by (cases c) (auto simp: V2_unset_ok V2_unset_throw one_instance_def)
next
  case (addr y)
  with assms show ?thesis by (auto simp: V2_set one_instance_def)
qed

lemma V4_keeps_one_instance:
  assumes "m_mutex s = Unlocked \<and> one_instance s" and "getInstance_V4 c s = (r, s')"
  shows "m_mutex s' = Unlocked \<and> one_instance s'"
proof (cases "m_instance s")
  case nullptr
  with assms show ?thesis
    by (cases c) (auto simp: V4_unset_ok V4_unset_throw one_instance_def)
next
  case (addr y)
  with assms show ?thesis by (auto simp: V4_set one_instance_def)
qed

lemma V2_run_one_instance:
  "m_mutex (snd (calls getInstance_V2 cs init_V2)) = Unlocked \<and>
   one_instance (snd (calls getInstance_V2 cs init_V2))"
  by (rule calls_invariant [where P = "\<lambda>s. m_mutex s = Unlocked \<and> one_instance s"])
    (erule (1) V2_keeps_one_instance, simp add: init_V2_def one_instance_def)

lemma V4_run_one_instance:
  "m_mutex (snd (calls getInstance_V4 cs init_V2)) = Unlocked \<and>
   one_instance (snd (calls getInstance_V4 cs init_V2))"
  by (rule calls_invariant [where P = "\<lambda>s. m_mutex s = Unlocked \<and> one_instance s"])
    (erule (1) V4_keeps_one_instance, simp add: init_V2_def one_instance_def)

lemma V5_run_one_instance:
  "constructed (snd (calls_V5 n s)) =
     (if n = 0 \<or> instance_initialized s then constructed s else constructed s @ [static_object])"
proof (cases n)
  case 0
  then show ?thesis by simp
next
  case (Suc m)
  show ?thesis
  proof (cases "instance_initialized s")
    case True
    then show ?thesis by (simp add: V5_run_set)
  next
    case False
    then show ?thesis by (simp add: Suc V5_unset V5_run_set split_beta)
  qed
qed

lemma V5_run_initialized:
  "instance_initialized (snd (calls_V5 n s)) = (0 < n \<or> instance_initialized s)"
proof (cases n)
  case 0
  then show ?thesis by simp
next
  case (Suc m)
  show ?thesis
  proof (cases "instance_initialized s")
    case True
    then show ?thesis by (simp add: V5_run_set)
  next
    case False
    then show ?thesis by (simp add: Suc V5_unset V5_run_set split_beta)
  qed
qed

lemma V2_second_call:
  assumes inv: "m_mutex s = Unlocked \<and> one_instance s"
    and first: "getInstance_V2 c1 s = (Returns p, s1)"
  shows "\<exists>x. p = addr x \<and> constructed s1 = [x] \<and>
           getInstance_V2 c2 s1 =
             (Returns p, s1\<lparr>trace := trace s1 @ [Lock, Read p, Read p, Unlock]\<rparr>)"
proof -
  from V2_returns [OF first] obtain x where p: "p = addr x" and slot: "m_instance s1 = addr x"
    by (cases p) simp_all
  from V2_keeps_one_instance [OF inv first]
  have free: "m_mutex s1 = Unlocked" and one: "one_instance s1" by simp_all
  from one slot have "constructed s1 = [x]" by (simp add: one_instance_def)
  with p V2_set [OF free slot, of c2] show ?thesis by simp
qed

lemma V4_second_call:
  assumes inv: "m_mutex s = Unlocked \<and> one_instance s"
    and first: "getInstance_V4 c1 s = (Returns p, s1)"
  shows "\<exists>x. p = addr x \<and> constructed s1 = [x] \<and>
           getInstance_V4 c2 s1 =
             (Returns p, s1\<lparr>trace := trace s1 @ [Load relaxed p, Fence acquire]\<rparr>)"
proof -
  from V4_returns [OF first] obtain x where p: "p = addr x" and slot: "m_instance s1 = addr x"
    by (cases p) simp_all
  from V4_keeps_one_instance [OF inv first] have one: "one_instance s1" by simp
  from one slot have "constructed s1 = [x]" by (simp add: one_instance_def)
  with p V4_set [OF slot, of c2] show ?thesis by simp
qed

lemma V5_run_from_init:
  "constructed (snd (calls_V5 n init_V5)) =
     (if instance_initialized (snd (calls_V5 n init_V5)) then [static_object] else [])"
  by (simp add: V5_run_one_instance V5_run_initialized init_V5_def)

lemma V5_second_call:
  assumes inv: "constructed s = (if instance_initialized s then [static_object] else [])"
    and first: "getInstance_V5 s = (r, s1)"
  shows "r = static_object \<and> constructed s1 = [static_object] \<and>
         getInstance_V5 s1 = (r, s1)"
proof (cases "instance_initialized s")
  case True
  from first have "r = static_object \<and> s1 = s" unfolding V5_set [OF True] by auto
  with inv True show ?thesis by (simp add: V5_set)
next
  case False
  from first have "r = static_object \<and>
      s1 = s\<lparr>constructed := constructed s @ [static_object],
             trace := trace s @ [Ctor static_object], instance_initialized := True\<rparr>"
    unfolding V5_unset [OF False] by auto
  with inv False show ?thesis by (simp add: V5_set)
qed

section \<open>A second call\<close>

text \<open>
  Claim C3. Take V2, V4 or V5 after any sequential run from the initial state (calls
  that threw included). When a call then returns, the call after it, whatever the
  allocator would answer, returns the same pointer (in V5 the same reference), reads
  the pointer without writing it, and constructs nothing: exactly one object has been
  constructed, before the second call and after it.
\<close>

theorem second_call_same_instance:
  "(getInstance_V2 c1 (snd (calls getInstance_V2 cs init_V2)) = (Returns p2, t2) \<longrightarrow>
      getInstance_V2 c2 t2 =
        (Returns p2, t2\<lparr>trace := trace t2 @ [Lock, Read p2, Read p2, Unlock]\<rparr>) \<and>
      (\<exists>x. p2 = addr x \<and> constructed t2 = [x]) \<and>
      length (constructed (snd (getInstance_V2 c2 t2))) = 1) \<and>
   (getInstance_V4 c1 (snd (calls getInstance_V4 cs init_V2)) = (Returns p4, t4) \<longrightarrow>
      getInstance_V4 c2 t4 =
        (Returns p4, t4\<lparr>trace := trace t4 @ [Load relaxed p4, Fence acquire]\<rparr>) \<and>
      (\<exists>x. p4 = addr x \<and> constructed t4 = [x]) \<and>
      length (constructed (snd (getInstance_V4 c2 t4))) = 1) \<and>
   (getInstance_V5 (snd (calls_V5 n init_V5)) = (r5, t5) \<longrightarrow>
      getInstance_V5 t5 = (r5, t5) \<and> r5 = static_object \<and>
      constructed t5 = [static_object] \<and>
      length (constructed (snd (getInstance_V5 t5))) = 1)"
proof (intro conjI impI)
  assume first: "getInstance_V2 c1 (snd (calls getInstance_V2 cs init_V2)) = (Returns p2, t2)"
  from V2_second_call [OF V2_run_one_instance first, of c2]
  obtain x where x: "p2 = addr x" "constructed t2 = [x]"
    and second: "getInstance_V2 c2 t2 =
        (Returns p2, t2\<lparr>trace := trace t2 @ [Lock, Read p2, Read p2, Unlock]\<rparr>)"
    by blast
  show "getInstance_V2 c2 t2 =
        (Returns p2, t2\<lparr>trace := trace t2 @ [Lock, Read p2, Read p2, Unlock]\<rparr>)"
    by (rule second)
  from x show "\<exists>x. p2 = addr x \<and> constructed t2 = [x]" by blast
  from x show "length (constructed (snd (getInstance_V2 c2 t2))) = 1"
    by (simp add: second)
next
  assume first: "getInstance_V4 c1 (snd (calls getInstance_V4 cs init_V2)) = (Returns p4, t4)"
  from V4_second_call [OF V4_run_one_instance first, of c2]
  obtain x where x: "p4 = addr x" "constructed t4 = [x]"
    and second: "getInstance_V4 c2 t4 =
        (Returns p4, t4\<lparr>trace := trace t4 @ [Load relaxed p4, Fence acquire]\<rparr>)"
    by blast
  show "getInstance_V4 c2 t4 =
        (Returns p4, t4\<lparr>trace := trace t4 @ [Load relaxed p4, Fence acquire]\<rparr>)"
    by (rule second)
  from x show "\<exists>x. p4 = addr x \<and> constructed t4 = [x]" by blast
  from x show "length (constructed (snd (getInstance_V4 c2 t4))) = 1"
    by (simp add: second)
next
  assume first: "getInstance_V5 (snd (calls_V5 n init_V5)) = (r5, t5)"
  from V5_second_call [OF V5_run_from_init first]
  show "getInstance_V5 t5 = (r5, t5)" and "r5 = static_object"
    and "constructed t5 = [static_object]"
    and "length (constructed (snd (getInstance_V5 t5))) = 1"
    by simp_all
qed

theorem second_call_same_instance_witness:
  "getInstance_V2 (Inr 2) (snd (calls getInstance_V2 [Inl bad_alloc] init_V2)) =
     (Returns (addr (heap_object 2)),
      \<lparr>constructed = [heap_object 2],
        trace = [Lock, Read nullptr, New_throws bad_alloc, Unlock,
                 Lock, Read nullptr, Ctor (heap_object 2), Write (addr (heap_object 2)),
                 Read (addr (heap_object 2)), Unlock],
        m_instance = addr (heap_object 2), m_mutex = Unlocked\<rparr>) \<and>
   fst (getInstance_V2 (Inr 5)
     \<lparr>constructed = [heap_object 2],
      trace = [Lock, Read nullptr, New_throws bad_alloc, Unlock,
               Lock, Read nullptr, Ctor (heap_object 2), Write (addr (heap_object 2)),
               Read (addr (heap_object 2)), Unlock],
      m_instance = addr (heap_object 2), m_mutex = Unlocked\<rparr>) =
     Returns (addr (heap_object 2)) \<and>
   getInstance_V4 (Inr 2) (snd (calls getInstance_V4 [Inl bad_alloc] init_V2)) =
     (Returns (addr (heap_object 2)),
      \<lparr>constructed = [heap_object 2],
        trace = [Load relaxed nullptr, Fence acquire, Lock, Load relaxed nullptr,
                 New_throws bad_alloc, Unlock,
                 Load relaxed nullptr, Fence acquire, Lock, Load relaxed nullptr,
                 Ctor (heap_object 2), Fence release, Store relaxed (addr (heap_object 2)),
                 Unlock],
        m_instance = addr (heap_object 2), m_mutex = Unlocked\<rparr>) \<and>
   fst (getInstance_V4 (Inr 5)
     \<lparr>constructed = [heap_object 2],
      trace = [Load relaxed nullptr, Fence acquire, Lock, Load relaxed nullptr,
               New_throws bad_alloc, Unlock,
               Load relaxed nullptr, Fence acquire, Lock, Load relaxed nullptr,
               Ctor (heap_object 2), Fence release, Store relaxed (addr (heap_object 2)),
               Unlock],
      m_instance = addr (heap_object 2), m_mutex = Unlocked\<rparr>) =
     Returns (addr (heap_object 2)) \<and>
   getInstance_V5 (snd (calls_V5 0 init_V5)) =
     (static_object,
      \<lparr>constructed = [static_object], trace = [Ctor static_object],
        instance_initialized = True\<rparr>) \<and>
   getInstance_V5
     \<lparr>constructed = [static_object], trace = [Ctor static_object],
      instance_initialized = True\<rparr> =
     (static_object,
      \<lparr>constructed = [static_object], trace = [Ctor static_object],
        instance_initialized = True\<rparr>)"
  using second_call_same_instance
      [of "Inr 2" "[Inl bad_alloc]" "addr (heap_object 2)"
          "\<lparr>constructed = [heap_object 2],
            trace = [Lock, Read nullptr, New_throws bad_alloc, Unlock,
                     Lock, Read nullptr, Ctor (heap_object 2), Write (addr (heap_object 2)),
                     Read (addr (heap_object 2)), Unlock],
            m_instance = addr (heap_object 2), m_mutex = Unlocked\<rparr>"
          "Inr 5" "addr (heap_object 2)"
          "\<lparr>constructed = [heap_object 2],
            trace = [Load relaxed nullptr, Fence acquire, Lock, Load relaxed nullptr,
                     New_throws bad_alloc, Unlock,
                     Load relaxed nullptr, Fence acquire, Lock, Load relaxed nullptr,
                     Ctor (heap_object 2), Fence release,
                     Store relaxed (addr (heap_object 2)), Unlock],
            m_instance = addr (heap_object 2), m_mutex = Unlocked\<rparr>"
          0 static_object
          "\<lparr>constructed = [static_object], trace = [Ctor static_object],
            instance_initialized = True\<rparr>"]
  by (simp add: V2_unset_throw V2_unset_ok V4_unset_throw V4_unset_ok V5_unset
      init_V2_def init_V5_def)

section \<open>Every variant refines the contract\<close>

lemma spec_run_set:
  "slot h = Some i \<Longrightarrow> calls spec_getInstance cs h = (replicate (length cs) (Returns i), h)"
  by (induction cs) (simp_all add: spec_getInstance_def)

lemma spec_run_unset:
  "calls spec_getInstance (Inr i # cs) unset =
     (replicate (Suc (length cs)) (Returns i), \<lparr>slot = Some i, instances = [i]\<rparr>)"
  by (simp add: spec_getInstance_def unset_def spec_run_set)

lemma V1_refines:
  "fst (getInstance_V1 c s) =
     map_outcome addr (fst (spec_getInstance (construction_of c) (handle_of s))) \<and>
   handle_of (snd (getInstance_V1 c s)) =
     snd (spec_getInstance (construction_of c) (handle_of s))"
  by (cases "m_instance s"; cases c)
    (simp_all add: V1_set V1_unset_ok V1_unset_throw spec_getInstance_def handle_of_def
      slot_of_def construction_of_def)

lemma V2_refines:
  "m_mutex s = Unlocked \<Longrightarrow>
   fst (getInstance_V2 c s) =
     map_outcome addr (fst (spec_getInstance (construction_of c) (handle_of s))) \<and>
   handle_of (snd (getInstance_V2 c s)) =
     snd (spec_getInstance (construction_of c) (handle_of s)) \<and>
   m_mutex (snd (getInstance_V2 c s)) = Unlocked"
  by (cases "m_instance s"; cases c)
    (simp_all add: V2_set V2_unset_ok V2_unset_throw spec_getInstance_def handle_of_def
      slot_of_def construction_of_def)

lemma V3_refines:
  "m_mutex s = Unlocked \<Longrightarrow>
   fst (getInstance_V3 c s) =
     map_outcome addr (fst (spec_getInstance (construction_of c) (handle_of s))) \<and>
   handle_of (snd (getInstance_V3 c s)) =
     snd (spec_getInstance (construction_of c) (handle_of s)) \<and>
   m_mutex (snd (getInstance_V3 c s)) = Unlocked"
  by (cases "m_instance s"; cases c)
    (simp_all add: V3_set V3_unset_ok V3_unset_throw spec_getInstance_def handle_of_def
      slot_of_def construction_of_def)

lemma V4_refines:
  "m_mutex s = Unlocked \<Longrightarrow>
   fst (getInstance_V4 c s) =
     map_outcome addr (fst (spec_getInstance (construction_of c) (handle_of s))) \<and>
   handle_of (snd (getInstance_V4 c s)) =
     snd (spec_getInstance (construction_of c) (handle_of s)) \<and>
   m_mutex (snd (getInstance_V4 c s)) = Unlocked"
  by (cases "m_instance s"; cases c)
    (simp_all add: V4_set V4_unset_ok V4_unset_throw spec_getInstance_def handle_of_def
      slot_of_def construction_of_def)

lemma V5_refines:
  "Returns (fst (getInstance_V5 s)) =
     fst (spec_getInstance (Inr static_object) (handle_of_V5 s)) \<and>
   handle_of_V5 (snd (getInstance_V5 s)) =
     snd (spec_getInstance (Inr static_object) (handle_of_V5 s))"
  by (cases "instance_initialized s")
    (simp_all add: V5_set V5_unset spec_getInstance_def handle_of_V5_def)

lemma run_refines:
  assumes step: "\<And>c s. I s \<Longrightarrow>
      fst (f c s) = map_outcome addr (fst (g (k c) (\<alpha> s))) \<and>
      \<alpha> (snd (f c s)) = snd (g (k c) (\<alpha> s)) \<and> I (snd (f c s))"
    and start: "I s"
  shows "fst (calls f cs s) = map (map_outcome addr) (fst (calls g (map k cs) (\<alpha> s))) \<and>
         \<alpha> (snd (calls f cs s)) = snd (calls g (map k cs) (\<alpha> s))"
  using start
proof (induction cs arbitrary: s)
  case Nil
  then show ?case by simp
next
  case (Cons c cs)
  obtain r0 h1 where spec: "g (k c) (\<alpha> s) = (r0, h1)" by (cases "g (k c) (\<alpha> s)")
  obtain r s1 where impl: "f c s = (r, s1)" by (cases "f c s")
  from step [OF Cons.prems, of c] spec impl
  have r: "r = map_outcome addr r0" and h1: "\<alpha> s1 = h1" and inv: "I s1" by simp_all
  from Cons.IH [OF inv] h1
  have rest: "fst (calls f cs s1) = map (map_outcome addr) (fst (calls g (map k cs) h1))"
    "\<alpha> (snd (calls f cs s1)) = snd (calls g (map k cs) h1)" by simp_all
  show ?case
    by (cases r0) (simp_all add: spec impl r rest h1 split_beta)
qed

lemma V5_run_refines:
  "map Returns (fst (calls_V5 n s)) =
     fst (calls spec_getInstance (replicate n (Inr static_object)) (handle_of_V5 s)) \<and>
   handle_of_V5 (snd (calls_V5 n s)) =
     snd (calls spec_getInstance (replicate n (Inr static_object)) (handle_of_V5 s))"
proof (induction n arbitrary: s)
  case 0
  show ?case by simp
next
  case (Suc n)
  obtain x s1 where impl: "getInstance_V5 s = (x, s1)" by (cases "getInstance_V5 s")
  obtain r0 h1 where spec: "spec_getInstance (Inr static_object) (handle_of_V5 s) = (r0, h1)"
    by (cases "spec_getInstance (Inr static_object) (handle_of_V5 s)")
  from V5_refines [of s] impl spec have r0: "r0 = Returns x" and h1: "handle_of_V5 s1 = h1"
    by simp_all
  from Suc.IH [of s1] h1 show ?case
    by (simp add: impl spec r0 split_beta)
qed

lemma handle_of_init_V1: "handle_of init_V1 = unset"
  by (simp add: handle_of_def slot_of_def init_V1_def unset_def)

lemma handle_of_init_V2: "handle_of init_V2 = unset"
  by (simp add: handle_of_def slot_of_def init_V2_def unset_def)

lemma handle_of_V5_init: "handle_of_V5 init_V5 = unset"
  by (simp add: handle_of_V5_def init_V5_def unset_def)

lemma V1_run_refines:
  "fst (calls getInstance_V1 cs init_V1) =
     map (map_outcome addr) (fst (calls spec_getInstance (map construction_of cs) unset)) \<and>
   handle_of (snd (calls getInstance_V1 cs init_V1)) =
     snd (calls spec_getInstance (map construction_of cs) unset)"
  using run_refines [where I = "\<lambda>s. True" and f = getInstance_V1 and g = spec_getInstance
      and k = construction_of and \<alpha> = handle_of and s = init_V1 and cs = cs]
  by (simp add: V1_refines handle_of_init_V1)

lemma V2_run_refines:
  "fst (calls getInstance_V2 cs init_V2) =
     map (map_outcome addr) (fst (calls spec_getInstance (map construction_of cs) unset)) \<and>
   handle_of (snd (calls getInstance_V2 cs init_V2)) =
     snd (calls spec_getInstance (map construction_of cs) unset)"
  using run_refines [where I = "\<lambda>s. m_mutex s = Unlocked" and f = getInstance_V2
      and g = spec_getInstance and k = construction_of and \<alpha> = handle_of and s = init_V2
      and cs = cs]
  by (simp add: V2_refines handle_of_init_V2) (simp add: init_V2_def)

lemma V3_run_refines:
  "fst (calls getInstance_V3 cs init_V2) =
     map (map_outcome addr) (fst (calls spec_getInstance (map construction_of cs) unset)) \<and>
   handle_of (snd (calls getInstance_V3 cs init_V2)) =
     snd (calls spec_getInstance (map construction_of cs) unset)"
  using run_refines [where I = "\<lambda>s. m_mutex s = Unlocked" and f = getInstance_V3
      and g = spec_getInstance and k = construction_of and \<alpha> = handle_of and s = init_V2
      and cs = cs]
  by (simp add: V3_refines handle_of_init_V2) (simp add: init_V2_def)

lemma V4_run_refines:
  "fst (calls getInstance_V4 cs init_V2) =
     map (map_outcome addr) (fst (calls spec_getInstance (map construction_of cs) unset)) \<and>
   handle_of (snd (calls getInstance_V4 cs init_V2)) =
     snd (calls spec_getInstance (map construction_of cs) unset)"
  using run_refines [where I = "\<lambda>s. m_mutex s = Unlocked" and f = getInstance_V4
      and g = spec_getInstance and k = construction_of and \<alpha> = handle_of and s = init_V2
      and cs = cs]
  by (simp add: V4_refines handle_of_init_V2) (simp add: init_V2_def)

lemma same_handle:
  "handle_of s = handle_of s' \<Longrightarrow>
   m_instance s = m_instance s' \<and> constructed s = constructed s'"
  by (cases "m_instance s"; cases "m_instance s'") (simp_all add: handle_of_def slot_of_def)

text \<open>
  Claim C8. Read through \<open>handle_of\<close> (the pointer as the slot, the objects constructed
  as the Instances), one call of each of V1 to V4 is one call of the contract
  \<open>spec_getInstance\<close>, outcome and state, from every state (in V2 to V4: with the mutex
  free, as it is between the calls of one thread); so is one call of V5 through
  \<open>handle_of_V5\<close>, its construction never failing. Hence every sequential run from the
  initial state is the run of the contract from the unset slot, and the contract's run
  constructs the one Instance on the first successful call and returns it on every
  call. Run on the same allocator answers, V1 to V4 give the same outcomes, the same
  pointer and the same objects.
\<close>

theorem variants_refine_one_contract:
  "(fst (getInstance_V1 c s1) =
        map_outcome addr (fst (spec_getInstance (construction_of c) (handle_of s1))) \<and>
      handle_of (snd (getInstance_V1 c s1)) =
        snd (spec_getInstance (construction_of c) (handle_of s1))) \<and>
   (m_mutex s = Unlocked \<longrightarrow>
      fst (getInstance_V2 c s) =
        map_outcome addr (fst (spec_getInstance (construction_of c) (handle_of s))) \<and>
      handle_of (snd (getInstance_V2 c s)) =
        snd (spec_getInstance (construction_of c) (handle_of s))) \<and>
   (m_mutex s = Unlocked \<longrightarrow>
      fst (getInstance_V3 c s) =
        map_outcome addr (fst (spec_getInstance (construction_of c) (handle_of s))) \<and>
      handle_of (snd (getInstance_V3 c s)) =
        snd (spec_getInstance (construction_of c) (handle_of s))) \<and>
   (m_mutex s = Unlocked \<longrightarrow>
      fst (getInstance_V4 c s) =
        map_outcome addr (fst (spec_getInstance (construction_of c) (handle_of s))) \<and>
      handle_of (snd (getInstance_V4 c s)) =
        snd (spec_getInstance (construction_of c) (handle_of s))) \<and>
   Returns (fst (getInstance_V5 s5)) =
     fst (spec_getInstance (Inr static_object) (handle_of_V5 s5)) \<and>
   handle_of_V5 (snd (getInstance_V5 s5)) =
     snd (spec_getInstance (Inr static_object) (handle_of_V5 s5)) \<and>
   fst (calls getInstance_V1 cs init_V1) =
     map (map_outcome addr) (fst (calls spec_getInstance (map construction_of cs) unset)) \<and>
   handle_of (snd (calls getInstance_V1 cs init_V1)) =
     snd (calls spec_getInstance (map construction_of cs) unset) \<and>
   fst (calls getInstance_V2 cs init_V2) =
     map (map_outcome addr) (fst (calls spec_getInstance (map construction_of cs) unset)) \<and>
   handle_of (snd (calls getInstance_V2 cs init_V2)) =
     snd (calls spec_getInstance (map construction_of cs) unset) \<and>
   fst (calls getInstance_V3 cs init_V2) =
     map (map_outcome addr) (fst (calls spec_getInstance (map construction_of cs) unset)) \<and>
   handle_of (snd (calls getInstance_V3 cs init_V2)) =
     snd (calls spec_getInstance (map construction_of cs) unset) \<and>
   fst (calls getInstance_V4 cs init_V2) =
     map (map_outcome addr) (fst (calls spec_getInstance (map construction_of cs) unset)) \<and>
   handle_of (snd (calls getInstance_V4 cs init_V2)) =
     snd (calls spec_getInstance (map construction_of cs) unset) \<and>
   map Returns (fst (calls_V5 n init_V5)) =
     fst (calls spec_getInstance (replicate n (Inr static_object)) unset) \<and>
   handle_of_V5 (snd (calls_V5 n init_V5)) =
     snd (calls spec_getInstance (replicate n (Inr static_object)) unset) \<and>
   calls spec_getInstance (Inr i # rest) unset =
     (replicate (Suc (length rest)) (Returns i), \<lparr>slot = Some i, instances = [i]\<rparr>) \<and>
   fst (calls getInstance_V2 cs init_V2) = fst (calls getInstance_V1 cs init_V1) \<and>
   m_instance (snd (calls getInstance_V2 cs init_V2)) =
     m_instance (snd (calls getInstance_V1 cs init_V1)) \<and>
   constructed (snd (calls getInstance_V2 cs init_V2)) =
     constructed (snd (calls getInstance_V1 cs init_V1)) \<and>
   fst (calls getInstance_V3 cs init_V2) = fst (calls getInstance_V1 cs init_V1) \<and>
   m_instance (snd (calls getInstance_V3 cs init_V2)) =
     m_instance (snd (calls getInstance_V1 cs init_V1)) \<and>
   constructed (snd (calls getInstance_V3 cs init_V2)) =
     constructed (snd (calls getInstance_V1 cs init_V1)) \<and>
   fst (calls getInstance_V4 cs init_V2) = fst (calls getInstance_V1 cs init_V1) \<and>
   m_instance (snd (calls getInstance_V4 cs init_V2)) =
     m_instance (snd (calls getInstance_V1 cs init_V1)) \<and>
   constructed (snd (calls getInstance_V4 cs init_V2)) =
     constructed (snd (calls getInstance_V1 cs init_V1))"
proof (intro conjI impI)
  show "fst (getInstance_V1 c s1) =
        map_outcome addr (fst (spec_getInstance (construction_of c) (handle_of s1)))"
    and "handle_of (snd (getInstance_V1 c s1)) =
        snd (spec_getInstance (construction_of c) (handle_of s1))"
    using V1_refines [of c s1] by simp_all
next
  assume free: "m_mutex s = Unlocked"
  show "fst (getInstance_V2 c s) =
        map_outcome addr (fst (spec_getInstance (construction_of c) (handle_of s)))"
    and "handle_of (snd (getInstance_V2 c s)) =
        snd (spec_getInstance (construction_of c) (handle_of s))"
    using V2_refines [OF free, of c] by simp_all
  show "fst (getInstance_V3 c s) =
        map_outcome addr (fst (spec_getInstance (construction_of c) (handle_of s)))"
    and "handle_of (snd (getInstance_V3 c s)) =
        snd (spec_getInstance (construction_of c) (handle_of s))"
    using V3_refines [OF free, of c] by simp_all
  show "fst (getInstance_V4 c s) =
        map_outcome addr (fst (spec_getInstance (construction_of c) (handle_of s)))"
    and "handle_of (snd (getInstance_V4 c s)) =
        snd (spec_getInstance (construction_of c) (handle_of s))"
    using V4_refines [OF free, of c] by simp_all
next
  show "Returns (fst (getInstance_V5 s5)) =
     fst (spec_getInstance (Inr static_object) (handle_of_V5 s5))"
    and "handle_of_V5 (snd (getInstance_V5 s5)) =
     snd (spec_getInstance (Inr static_object) (handle_of_V5 s5))"
    using V5_refines [of s5] by simp_all
next
  show "fst (calls getInstance_V1 cs init_V1) =
     map (map_outcome addr) (fst (calls spec_getInstance (map construction_of cs) unset))"
    and "handle_of (snd (calls getInstance_V1 cs init_V1)) =
     snd (calls spec_getInstance (map construction_of cs) unset)"
    using V1_run_refines [of cs] by simp_all
  show "fst (calls getInstance_V2 cs init_V2) =
     map (map_outcome addr) (fst (calls spec_getInstance (map construction_of cs) unset))"
    and "handle_of (snd (calls getInstance_V2 cs init_V2)) =
     snd (calls spec_getInstance (map construction_of cs) unset)"
    using V2_run_refines [of cs] by simp_all
  show "fst (calls getInstance_V3 cs init_V2) =
     map (map_outcome addr) (fst (calls spec_getInstance (map construction_of cs) unset))"
    and "handle_of (snd (calls getInstance_V3 cs init_V2)) =
     snd (calls spec_getInstance (map construction_of cs) unset)"
    using V3_run_refines [of cs] by simp_all
  show "fst (calls getInstance_V4 cs init_V2) =
     map (map_outcome addr) (fst (calls spec_getInstance (map construction_of cs) unset))"
    and "handle_of (snd (calls getInstance_V4 cs init_V2)) =
     snd (calls spec_getInstance (map construction_of cs) unset)"
    using V4_run_refines [of cs] by simp_all
  show "map Returns (fst (calls_V5 n init_V5)) =
     fst (calls spec_getInstance (replicate n (Inr static_object)) unset)"
    and "handle_of_V5 (snd (calls_V5 n init_V5)) =
     snd (calls spec_getInstance (replicate n (Inr static_object)) unset)"
    using V5_run_refines [of n init_V5] by (simp_all add: handle_of_V5_init)
  show "calls spec_getInstance (Inr i # rest) unset =
     (replicate (Suc (length rest)) (Returns i), \<lparr>slot = Some i, instances = [i]\<rparr>)"
    by (rule spec_run_unset)
  have h2: "handle_of (snd (calls getInstance_V2 cs init_V2)) =
      handle_of (snd (calls getInstance_V1 cs init_V1))"
    using V1_run_refines [of cs] V2_run_refines [of cs] by simp
  have h3: "handle_of (snd (calls getInstance_V3 cs init_V2)) =
      handle_of (snd (calls getInstance_V1 cs init_V1))"
    using V1_run_refines [of cs] V3_run_refines [of cs] by simp
  have h4: "handle_of (snd (calls getInstance_V4 cs init_V2)) =
      handle_of (snd (calls getInstance_V1 cs init_V1))"
    using V1_run_refines [of cs] V4_run_refines [of cs] by simp
  show "fst (calls getInstance_V2 cs init_V2) = fst (calls getInstance_V1 cs init_V1)"
    using V1_run_refines [of cs] V2_run_refines [of cs] by simp
  show "fst (calls getInstance_V3 cs init_V2) = fst (calls getInstance_V1 cs init_V1)"
    using V1_run_refines [of cs] V3_run_refines [of cs] by simp
  show "fst (calls getInstance_V4 cs init_V2) = fst (calls getInstance_V1 cs init_V1)"
    using V1_run_refines [of cs] V4_run_refines [of cs] by simp
  from same_handle [OF h2]
  show "m_instance (snd (calls getInstance_V2 cs init_V2)) =
     m_instance (snd (calls getInstance_V1 cs init_V1))"
    and "constructed (snd (calls getInstance_V2 cs init_V2)) =
     constructed (snd (calls getInstance_V1 cs init_V1))" by simp_all
  from same_handle [OF h3]
  show "m_instance (snd (calls getInstance_V3 cs init_V2)) =
     m_instance (snd (calls getInstance_V1 cs init_V1))"
    and "constructed (snd (calls getInstance_V3 cs init_V2)) =
     constructed (snd (calls getInstance_V1 cs init_V1))" by simp_all
  from same_handle [OF h4]
  show "m_instance (snd (calls getInstance_V4 cs init_V2)) =
     m_instance (snd (calls getInstance_V1 cs init_V1))"
    and "constructed (snd (calls getInstance_V4 cs init_V2)) =
     constructed (snd (calls getInstance_V1 cs init_V1))" by simp_all
qed

theorem variants_refine_one_contract_witness:
  "fst (calls getInstance_V1 [Inl bad_alloc, Inr 1, Inr 2] init_V1) =
     [Throws bad_alloc, Returns (addr (heap_object 1)), Returns (addr (heap_object 1))] \<and>
   handle_of (snd (calls getInstance_V1 [Inl bad_alloc, Inr 1, Inr 2] init_V1)) =
     \<lparr>slot = Some (heap_object 1), instances = [heap_object 1]\<rparr> \<and>
   fst (calls getInstance_V2 [Inl bad_alloc, Inr 1, Inr 2] init_V2) =
     [Throws bad_alloc, Returns (addr (heap_object 1)), Returns (addr (heap_object 1))] \<and>
   handle_of (snd (calls getInstance_V2 [Inl bad_alloc, Inr 1, Inr 2] init_V2)) =
     \<lparr>slot = Some (heap_object 1), instances = [heap_object 1]\<rparr> \<and>
   fst (calls getInstance_V3 [Inl bad_alloc, Inr 1, Inr 2] init_V2) =
     [Throws bad_alloc, Returns (addr (heap_object 1)), Returns (addr (heap_object 1))] \<and>
   handle_of (snd (calls getInstance_V3 [Inl bad_alloc, Inr 1, Inr 2] init_V2)) =
     \<lparr>slot = Some (heap_object 1), instances = [heap_object 1]\<rparr> \<and>
   fst (calls getInstance_V4 [Inl bad_alloc, Inr 1, Inr 2] init_V2) =
     [Throws bad_alloc, Returns (addr (heap_object 1)), Returns (addr (heap_object 1))] \<and>
   handle_of (snd (calls getInstance_V4 [Inl bad_alloc, Inr 1, Inr 2] init_V2)) =
     \<lparr>slot = Some (heap_object 1), instances = [heap_object 1]\<rparr> \<and>
   map Returns (fst (calls_V5 2 init_V5)) = [Returns static_object, Returns static_object] \<and>
   handle_of_V5 (snd (calls_V5 2 init_V5)) =
     \<lparr>slot = Some static_object, instances = [static_object]\<rparr> \<and>
   m_mutex init_V2 = Unlocked \<and>
   fst (getInstance_V1 (Inr 1) init_V1) = Returns (addr (heap_object 1)) \<and>
   fst (getInstance_V2 (Inr 1) init_V2) = Returns (addr (heap_object 1)) \<and>
   fst (getInstance_V3 (Inr 1) init_V2) = Returns (addr (heap_object 1)) \<and>
   fst (getInstance_V4 (Inr 1) init_V2) = Returns (addr (heap_object 1)) \<and>
   Returns (fst (getInstance_V5 init_V5)) = Returns static_object \<and>
   calls spec_getInstance [Inr (heap_object 1), Inl bad_alloc] unset =
     ([Returns (heap_object 1), Returns (heap_object 1)],
      \<lparr>slot = Some (heap_object 1), instances = [heap_object 1]\<rparr>)"
  using variants_refine_one_contract
      [of "Inr 1" init_V1 init_V2 init_V5 "[Inl bad_alloc, Inr 1, Inr 2]" 2 "heap_object 1"
          "[Inl bad_alloc]"]
  by (simp add: spec_getInstance_def unset_def construction_of_def handle_of_def
      handle_of_V5_def slot_of_def init_V1_def init_V2_def init_V5_def numeral_2_eq_2)

end
